theory Spec2Isabelle
  imports Complex_Main "HOL-Library.Char_ord" "HOL-Library.List_Lexorder"
begin

section \<open>Data model\<close>

text \<open>
  JavaScript numbers are modelled as exact reals: the literals of the source (\<open>1.1\<close>,
  \<open>2.5\<close>, \<open>7.5\<close>, \<open>0.5\<close>) are the corresponding rationals, \<open>Math.max\<close> is \<open>max\<close>
  and \<open>Math.round\<close> is rounding half up. A value typed \<open>number | null\<close> is a
  \<open>real option\<close>; the source tests such values with
  \<open>v !== null && v !== undefined\<close> throughout, so \<open>None\<close> stands for both.
\<close>

datatype metricType = NUMERIC | SCALE_1_10 | BOOLEAN | TEXT

datatype metricCategory = INPUT | OUTPUT

record TrackableItem =
  item_id :: string
  item_name :: string
  item_category :: metricCategory
  item_type :: metricType

text \<open>
  \<open>normalizedComparisonValue\<close> is an optional field of type \<open>number | null\<close>:
  \<open>None\<close> is the absent field, \<open>Some None\<close> the value \<open>null\<close>.
\<close>

record DualMetricChartData =
  date :: string
  formattedDate :: string
  primaryValue :: "real option"
  comparisonValue :: "real option"
  normalizedComparisonValue :: "real option option"

record AxisConfig =
  leftDomain :: "real \<times> real"
  rightDomain :: "real \<times> real"
  rightTickFormatter :: "(real \<Rightarrow> string) option"
  rightTicks :: "real list option"
  normalizeComparison :: bool

record AxisResult =
  chartData :: "DualMetricChartData list"
  axisConfig :: "AxisConfig option"

section \<open>Number formatting\<close>

definition digit_char :: "nat \<Rightarrow> char" where
  "digit_char d = ''0123456789'' ! d"

text \<open>Decimal digits of a natural number, most significant first.\<close>

function decimal :: "nat \<Rightarrow> string" where
  "decimal n = (if n < 10 then [digit_char n] else decimal (n div 10) @ [digit_char (n mod 10)])"
  by pat_completeness auto
termination
  by (relation "measure id") auto

declare decimal.simps [simp del]

text \<open>\<open>Number.prototype.toString\<close> on an integral value.\<close>

definition toString :: "int \<Rightarrow> string" where
  "toString k = (if k < 0 then CHR ''-'' # decimal (nat (- k)) else decimal (nat k))"

text \<open>\<open>Math.round\<close>: the nearest integer, ties towards plus infinity.\<close>

definition Math_round :: "real \<Rightarrow> int" where
  "Math_round x = \<lfloor>x + 1 / 2\<rfloor>"

section \<open>Axis synchronizer (data page)\<close>

text \<open>
  \<open>rawChartData.map(d => d.primaryValue).filter(v => v !== null && v !== undefined)\<close>
\<close>

definition nonNull :: "real option list \<Rightarrow> real list" where
  "nonNull vs = map the (filter (\<lambda>v. v \<noteq> None) vs)"

text \<open>
  \<open>values.length > 0 ? Math.max(...values) : 10\<close>
\<close>

definition maxOr10 :: "real list \<Rightarrow> real" where
  "maxOr10 values = (case values of [] \<Rightarrow> 10 | v # vs \<Rightarrow> fold max vs v)"

definition primaryMax :: "DualMetricChartData list \<Rightarrow> real" where
  "primaryMax rawChartData = maxOr10 (nonNull (map primaryValue rawChartData))"

definition comparisonMax :: "DualMetricChartData list \<Rightarrow> real" where
  "comparisonMax rawChartData = maxOr10 (nonNull (map comparisonValue rawChartData))"

text \<open>
  Scenario A: the right axis shows 1-10 labels on the scale of the left axis. Here the
  closure and the ticks are read over exact reals, like the rest of the synchronizer; their
  binary64 reading is \<open>formatterA64\<close> and \<open>ticksA64\<close> below.
\<close>

definition formatterA :: "real \<Rightarrow> real \<Rightarrow> string" where
  "formatterA scaledMax v =
     (let scaleValue = Math_round ((v / scaledMax) * 10)
      in if scaleValue \<ge> 1 \<and> scaleValue \<le> 10 then toString scaleValue else [])"

definition ticksA :: "real \<Rightarrow> real list" where
  "ticksA scaledMax = map (\<lambda>i. ((real i + 1) / 10) * scaledMax) [0..<10]"

text \<open>The labels of the 1-10 scale, in order: "1" to "9", then "10".\<close>

definition scaleLabels :: "string list" where
  "scaleLabels = map (\<lambda>c. [c]) ''123456789'' @ [''10'']"

text \<open>Scenario C: a boolean comparison drawn on the 1-10 scale.\<close>

definition formatterC :: "real \<Rightarrow> string" where
  "formatterC v =
     (if \<bar>v - 7.5\<bar> < 0.5 then ''Yes''
      else if \<bar>v - 2.5\<bar> < 0.5 then ''No''
      else [])"

definition normalizeBoolean :: "DualMetricChartData \<Rightarrow> DualMetricChartData" where
  "normalizeBoolean d =
     d\<lparr>normalizedComparisonValue :=
         Some (if comparisonValue d = Some 1 then Some 7.5
               else if comparisonValue d = Some 0 then Some 2.5
               else None)\<rparr>"

definition axisSync ::
  "TrackableItem option \<Rightarrow> TrackableItem option \<Rightarrow> DualMetricChartData list \<Rightarrow> AxisResult" where
  "axisSync primaryMetric comparisonMetric rawChartData =
     (case primaryMetric of
        None \<Rightarrow> \<lparr>chartData = rawChartData, axisConfig = None\<rparr>
      | Some pm \<Rightarrow>
         if rawChartData = [] then \<lparr>chartData = rawChartData, axisConfig = None\<rparr>
         else
           (case comparisonMetric of
              None \<Rightarrow>
                \<lparr>chartData = rawChartData,
                 axisConfig = Some
                   \<lparr>leftDomain = (if item_type pm = SCALE_1_10 then (1, 10)
                                  else (0, max (primaryMax rawChartData * 1.1) 1)),
                    rightDomain = (0, 10),
                    rightTickFormatter = None,
                    rightTicks = None,
                    normalizeComparison = False\<rparr>\<rparr>
            | Some cm \<Rightarrow>
                if item_type pm = NUMERIC \<and> item_type cm = SCALE_1_10 then
                  (let scaledMax = max (primaryMax rawChartData * 1.1) 1
                   in \<lparr>chartData = rawChartData,
                       axisConfig = Some
                         \<lparr>leftDomain = (0, scaledMax),
                          rightDomain = (0, scaledMax),
                          rightTickFormatter = Some (formatterA scaledMax),
                          rightTicks = Some (ticksA scaledMax),
                          normalizeComparison = False\<rparr>\<rparr>)
                else if item_type pm = SCALE_1_10 \<and> item_type cm = NUMERIC then
                  \<lparr>chartData = rawChartData,
                   axisConfig = Some
                     \<lparr>leftDomain = (1, 10),
                      rightDomain = (0, max (comparisonMax rawChartData * 1.1) 1),
                      rightTickFormatter = None,
                      rightTicks = None,
                      normalizeComparison = False\<rparr>\<rparr>
                else if item_type pm = SCALE_1_10 \<and> item_type cm = BOOLEAN then
                  \<lparr>chartData = map normalizeBoolean rawChartData,
                   axisConfig = Some
                     \<lparr>leftDomain = (1, 10),
                      rightDomain = (1, 10),
                      rightTickFormatter = Some formatterC,
                      rightTicks = Some [2.5, 7.5],
                      normalizeComparison = True\<rparr>\<rparr>
                else
                  (let leftMax = (if item_type pm = SCALE_1_10 then 10
                                  else max (primaryMax rawChartData * 1.1) 1);
                       rightMax = (if item_type cm = SCALE_1_10 then 10
                                   else max (comparisonMax rawChartData * 1.1) 1)
                   in \<lparr>chartData = rawChartData,
                       axisConfig = Some
                         \<lparr>leftDomain = (if item_type pm = SCALE_1_10 then (1, 10)
                                        else (0, leftMax)),
                          rightDomain = (if item_type cm = SCALE_1_10 then (1, 10)
                                         else (0, rightMax)),
                          rightTickFormatter = None,
                          rightTicks = None,
                          normalizeComparison = False\<rparr>\<rparr>)))"

section \<open>Binary64 arithmetic of the Scenario A closure\<close>

text \<open>
  The exact reals above leave out two things that binary64 numbers do: they round, and
  they overflow to \<open>Infinity\<close>. For the tick formatter of Scenario A both matter, so the
  closure and the tick placement are given a second time over JavaScript numbers with
  their non-finite values. \<open>formatterA\<close> and \<open>ticksA\<close> are the instance of these
  definitions with exact rounding on values in range.
\<close>

datatype number = Finite real | PosInfinity | NegInfinity | NaN

text \<open>\<open>Number.MAX_VALUE\<close> and the least positive normal number.\<close>

definition MAX_VALUE :: real where
  "MAX_VALUE = (2 - 1 / 2 ^ 52) * 2 ^ 1023"

definition MIN_NORMAL :: real where
  "MIN_NORMAL = 1 / 2 ^ 1022"

text \<open>
  The rounding of a real to binary64 with unbounded exponent is the platform's, and a
  parameter \<open>rnd\<close> of the model. What is used of it: a relative error of at most
  \<open>2^-53\<close> from the normal range upwards, no rounding across \<open>MAX_VALUE\<close>, and that 1 is
  a binary64 number.
\<close>

definition nearest64 :: "(real \<Rightarrow> real) \<Rightarrow> bool" where
  "nearest64 rnd \<longleftrightarrow>
     (\<forall>x. MIN_NORMAL \<le> \<bar>x\<bar> \<longrightarrow> \<bar>rnd x - x\<bar> \<le> \<bar>x\<bar> / 2 ^ 53)
     \<and> (\<forall>x. x \<le> MAX_VALUE \<longrightarrow> rnd x \<le> MAX_VALUE)
     \<and> rnd 1 = 1"

text \<open>The result of an operation on finite operands: rounded, and infinite on overflow.\<close>

definition fin :: "(real \<Rightarrow> real) \<Rightarrow> real \<Rightarrow> number" where
  "fin rnd x =
     (let y = rnd x
      in if MAX_VALUE < y then PosInfinity
         else if y < - MAX_VALUE then NegInfinity
         else Finite y)"

fun isNegative :: "number \<Rightarrow> bool" where
  "isNegative (Finite x) = (x < 0)"
| "isNegative NegInfinity = True"
| "isNegative _ = False"

definition signedInfinity :: "bool \<Rightarrow> number" where
  "signedInfinity negative = (if negative then NegInfinity else PosInfinity)"

text \<open>
  Multiplication and division. Zero is the positive zero: the sign of a zero is not
  modelled.
\<close>

fun js_mul :: "(real \<Rightarrow> real) \<Rightarrow> number \<Rightarrow> number \<Rightarrow> number" where
  "js_mul rnd NaN b = NaN"
| "js_mul rnd a NaN = NaN"
| "js_mul rnd (Finite x) (Finite y) = fin rnd (x * y)"
| "js_mul rnd (Finite x) b =
     (if x = 0 then NaN else signedInfinity (isNegative (Finite x) \<noteq> isNegative b))"
| "js_mul rnd a (Finite y) =
     (if y = 0 then NaN else signedInfinity (isNegative a \<noteq> isNegative (Finite y)))"
| "js_mul rnd a b = signedInfinity (isNegative a \<noteq> isNegative b)"

fun js_div :: "(real \<Rightarrow> real) \<Rightarrow> number \<Rightarrow> number \<Rightarrow> number" where
  "js_div rnd NaN b = NaN"
| "js_div rnd a NaN = NaN"
| "js_div rnd (Finite x) (Finite y) =
     (if y = 0 then (if x = 0 then NaN else signedInfinity (x < 0))
      else fin rnd (x / y))"
| "js_div rnd (Finite x) b = Finite 0"
| "js_div rnd a (Finite y) = signedInfinity (isNegative a \<noteq> isNegative (Finite y))"
| "js_div rnd a b = NaN"

text \<open>\<open>a <= b\<close>: false whenever an operand is \<open>NaN\<close>.\<close>

fun js_le :: "number \<Rightarrow> number \<Rightarrow> bool" where
  "js_le NaN b = False"
| "js_le a NaN = False"
| "js_le (Finite x) (Finite y) = (x \<le> y)"
| "js_le NegInfinity b = True"
| "js_le a PosInfinity = True"
| "js_le a b = False"

definition Math_max64 :: "number \<Rightarrow> number \<Rightarrow> number" where
  "Math_max64 a b = (if a = NaN \<or> b = NaN then NaN else if js_le a b then b else a)"

fun Math_round64 :: "number \<Rightarrow> number" where
  "Math_round64 (Finite x) = Finite (real_of_int (Math_round x))"
| "Math_round64 a = a"

text \<open>\<open>toString\<close>; of the finite numbers only the integral ones are printed here.\<close>

fun number_toString :: "number \<Rightarrow> string" where
  "number_toString (Finite x) = toString \<lfloor>x\<rfloor>"
| "number_toString PosInfinity = ''Infinity''"
| "number_toString NegInfinity = ''-Infinity''"
| "number_toString NaN = ''NaN''"

text \<open>
  \<open>Math.max(primaryMax * 1.1, 1)\<close>; the literal \<open>1.1\<close> is the binary64 number nearest to
  it.
\<close>

definition scaledMax64 :: "(real \<Rightarrow> real) \<Rightarrow> number \<Rightarrow> number" where
  "scaledMax64 rnd pmax = Math_max64 (js_mul rnd pmax (Finite (rnd 1.1))) (Finite 1)"

text \<open>The tick formatter and the tick placement of Scenario A, as the source computes them.\<close>

definition formatterA64 :: "(real \<Rightarrow> real) \<Rightarrow> number \<Rightarrow> number \<Rightarrow> string" where
  "formatterA64 rnd scaledMax v =
     (let scaleValue = Math_round64 (js_mul rnd (js_div rnd v scaledMax) (Finite 10))
      in if js_le (Finite 1) scaleValue \<and> js_le scaleValue (Finite 10)
         then number_toString scaleValue else [])"

definition ticksA64 :: "(real \<Rightarrow> real) \<Rightarrow> number \<Rightarrow> number list" where
  "ticksA64 rnd scaledMax =
     map (\<lambda>i. js_mul rnd (js_div rnd (Finite (real i + 1)) (Finite 10)) scaledMax) [0..<10]"

section \<open>Correlation score (data page)\<close>

text \<open>
  The body of the \<open>forEach\<close>: a data point with both values present is pushed onto
  the two arrays, any other is skipped.
\<close>

definition pushPaired ::
  "DualMetricChartData \<Rightarrow> real list \<times> real list \<Rightarrow> real list \<times> real list" where
  "pushPaired dataPoint acc =
     (case (primaryValue dataPoint, comparisonValue dataPoint) of
        (Some p, Some c) \<Rightarrow> (fst acc @ [p], snd acc @ [c])
      | _ \<Rightarrow> acc)"

definition pairedValues :: "DualMetricChartData list \<Rightarrow> real list \<times> real list" where
  "pairedValues cd = fold pushPaired cd ([], [])"

text \<open>
  \<open>calculatePearsonCorrelation\<close> lives in \<open>lib/correlation\<close>, which is not among the
  sources; it is a parameter of the model.
\<close>

definition correlationScore ::
  "(real list \<Rightarrow> real list \<Rightarrow> 'r option) \<Rightarrow> TrackableItem option \<Rightarrow> TrackableItem option
     \<Rightarrow> string \<Rightarrow> DualMetricChartData list \<Rightarrow> 'r option" where
  "correlationScore calculatePearsonCorrelation primaryMetric comparisonMetric comparisonMetricId cd =
     (if primaryMetric = None \<or> comparisonMetric = None \<or> comparisonMetricId = ''none'' \<or> cd = []
      then None
      else
        (let (primaryValues, comparisonValues) = pairedValues cd
         in if length primaryValues \<ge> 2
            then calculatePearsonCorrelation primaryValues comparisonValues
            else None))"

text \<open>The state of the data page that the two memoised computations read.\<close>

record DataPage =
  allItems :: "TrackableItem list"
  primaryMetricId :: string
  comparisonMetricId :: string
  rawChartData :: "DualMetricChartData list"

definition primaryMetric :: "DataPage \<Rightarrow> TrackableItem option" where
  "primaryMetric st = find (\<lambda>item. item_id item = primaryMetricId st) (allItems st)"

definition comparisonMetric :: "DataPage \<Rightarrow> TrackableItem option" where
  "comparisonMetric st = find (\<lambda>item. item_id item = comparisonMetricId st) (allItems st)"

definition pageAxis :: "DataPage \<Rightarrow> AxisResult" where
  "pageAxis st = axisSync (primaryMetric st) (comparisonMetric st) (rawChartData st)"

definition pageCorrelationScore ::
  "(real list \<Rightarrow> real list \<Rightarrow> 'r option) \<Rightarrow> DataPage \<Rightarrow> 'r option" where
  "pageCorrelationScore calculatePearsonCorrelation st =
     correlationScore calculatePearsonCorrelation (primaryMetric st) (comparisonMetric st)
       (comparisonMetricId st) (chartData (pageAxis st))"

text \<open>
  The inner join on the day, in the words of the specification: the days on which both
  metrics have a value, each giving the pair of the two values.
\<close>

definition innerJoin :: "DualMetricChartData list \<Rightarrow> (real \<times> real) list" where
  "innerJoin cd =
     map (\<lambda>d. (the (primaryValue d), the (comparisonValue d)))
       (filter (\<lambda>d. primaryValue d \<noteq> None \<and> comparisonValue d \<noteq> None) cd)"

section \<open>Vote action (community actions)\<close>

datatype voteType = upvote | downvote

text \<open>A row of the table \<open>finding_votes\<close>, with the columns the action reads and writes.\<close>

record voteRow =
  user_id :: string
  finding_id :: string
  vote_type :: voteType

text \<open>
  The external calls of the action and what they answer. A database call answers with an
  error message or without one, or throws; a call that answers with an error or throws
  has not changed the table. \<open>getUser\<close> answers with the id of the session's user, or
  with no user (which stands for \<open>userError || !user\<close>).
\<close>

datatype 'a outcome = Returns 'a | Throws

datatype invokeOutcome = InvokeOk | InvokeError | InvokeThrows

record voteEnv =
  getUser :: "string option outcome"
  fetchError :: "string option outcome"
  writeError :: "string option outcome"
  voteProcessor :: invokeOutcome
  revalidateThrows :: bool

datatype voteResult = Success | Error string

text \<open>\<open>.eq('user_id', userId).eq('finding_id', findingId)\<close>\<close>

definition matches :: "string \<Rightarrow> string \<Rightarrow> voteRow \<Rightarrow> bool" where
  "matches userId findingId r \<longleftrightarrow> user_id r = userId \<and> finding_id r = findingId"

text \<open>
  \<open>.single()\<close>: the row when exactly one row is selected; with no row or several rows
  the answer is no data and the error \<open>PGRST116\<close>, which the action lets pass.
\<close>

definition single :: "'a list \<Rightarrow> 'a option" where
  "single rows = (case rows of [r] \<Rightarrow> Some r | _ \<Rightarrow> None)"

definition deleteVotes :: "string \<Rightarrow> string \<Rightarrow> voteRow list \<Rightarrow> voteRow list" where
  "deleteVotes userId findingId tbl = filter (\<lambda>r. \<not> matches userId findingId r) tbl"

definition updateVotes :: "string \<Rightarrow> string \<Rightarrow> voteType \<Rightarrow> voteRow list \<Rightarrow> voteRow list" where
  "updateVotes userId findingId voteType tbl =
     map (\<lambda>r. if matches userId findingId r then r\<lparr>vote_type := voteType\<rparr> else r) tbl"

definition insertVote :: "string \<Rightarrow> string \<Rightarrow> voteType \<Rightarrow> voteRow list \<Rightarrow> voteRow list" where
  "insertVote userId findingId voteType tbl =
     tbl @ [\<lparr>user_id = userId, finding_id = findingId, vote_type = voteType\<rparr>]"

definition unexpected :: voteResult where
  "unexpected = Error ''An unexpected error occurred while voting.''"

text \<open>
  What follows a successful write: the call of the vote processor, whose error and whose
  exception are both logged and dropped, then the two \<open>revalidatePath\<close> calls.
\<close>

definition afterWrite :: "voteEnv \<Rightarrow> voteRow list \<Rightarrow> voteResult \<times> voteRow list" where
  "afterWrite env tbl =
     (case voteProcessor env of
        InvokeOk \<Rightarrow> (if revalidateThrows env then (unexpected, tbl) else (Success, tbl))
      | InvokeError \<Rightarrow> (if revalidateThrows env then (unexpected, tbl) else (Success, tbl))
      | InvokeThrows \<Rightarrow> (if revalidateThrows env then (unexpected, tbl) else (Success, tbl)))"

definition writeVote ::
  "voteEnv \<Rightarrow> string \<Rightarrow> voteRow list \<Rightarrow> voteRow list \<Rightarrow> voteResult \<times> voteRow list" where
  "writeVote env failure tbl tbl' =
     (case writeError env of
        Throws \<Rightarrow> (unexpected, tbl)
      | Returns (Some message) \<Rightarrow> (Error (failure @ message), tbl)
      | Returns None \<Rightarrow> afterWrite env tbl')"

definition castVoteAction ::
  "voteEnv \<Rightarrow> string \<Rightarrow> string \<Rightarrow> voteType \<Rightarrow> voteRow list \<Rightarrow> voteResult \<times> voteRow list" where
  "castVoteAction env userId findingId voteType tbl =
     (if userId = [] \<or> findingId = [] then (Error ''User and Finding ID are required.'', tbl)
      else
        (case getUser env of
           Throws \<Rightarrow> (unexpected, tbl)
         | Returns None \<Rightarrow> (Error ''You must be logged in to vote.'', tbl)
         | Returns (Some uid) \<Rightarrow>
             if uid \<noteq> userId then (Error ''You must be logged in to vote.'', tbl)
             else
               (case fetchError env of
                  Throws \<Rightarrow> (unexpected, tbl)
                | Returns (Some message) \<Rightarrow>
                    (Error (''Failed to check existing vote: '' @ message), tbl)
                | Returns None \<Rightarrow>
                    (case single (filter (matches userId findingId) tbl) of
                       Some existingVote \<Rightarrow>
                         if vote_type existingVote = voteType
                         then writeVote env ''Failed to remove vote: '' tbl
                                (deleteVotes userId findingId tbl)
                         else writeVote env ''Failed to update vote: '' tbl
                                (updateVotes userId findingId voteType tbl)
                     | None \<Rightarrow>
                         writeVote env ''Failed to create vote: '' tbl
                           (insertVote userId findingId voteType tbl)))))"

text \<open>At most one vote row for each pair of a user and a finding.\<close>

definition vote_unique :: "voteRow list \<Rightarrow> bool" where
  "vote_unique tbl \<longleftrightarrow> distinct (map (\<lambda>r. (user_id r, finding_id r)) tbl)"

definition votesOf :: "string \<Rightarrow> string \<Rightarrow> voteRow list \<Rightarrow> voteRow list" where
  "votesOf userId findingId tbl = filter (matches userId findingId) tbl"

text \<open>An environment in which the session is the voter's and no database call fails.\<close>

definition callsSucceed :: "voteEnv \<Rightarrow> string \<Rightarrow> bool" where
  "callsSucceed env userId \<longleftrightarrow>
     getUser env = Returns (Some userId) \<and> fetchError env = Returns None
     \<and> writeError env = Returns None"

section \<open>Experiments\<close>

datatype experimentStatus = ACTIVE | COMPLETED

text \<open>
  The type \<open>Experiment\<close> is declared in \<open>lib/experiments\<close>, which is not among the
  sources; these are the fields the lab page and the results dialog read. Dates are ISO
  strings \<open>YYYY-MM-DD\<close>, compared as strings.
\<close>

record Experiment =
  exp_id :: string
  title :: string
  hypothesis :: string
  start_date :: string
  end_date :: string
  status :: experimentStatus
  independent_variable :: "TrackableItem option"
  dependent_variable :: "TrackableItem option"

record ExperimentResults =
  results_experiment :: Experiment
  positiveConditionAverage :: "real option"
  negativeConditionAverage :: "real option"
  positiveConditionCount :: nat
  negativeConditionCount :: nat
  totalDays :: nat
  daysWithData :: nat

section \<open>Experiment results dialog\<close>

text \<open>
  \<open>Number.prototype.toFixed(1)\<close>: the sign, then the nearest number of tenths (ties
  upwards) in decimal with one fractional digit. Magnitudes of \<open>10^21\<close> and more, which
  JavaScript prints in exponent notation, are outside what this definition describes.
\<close>

definition toFixed1 :: "real \<Rightarrow> string" where
  "toFixed1 x =
     (let n = nat \<lfloor>\<bar>x\<bar> * 10 + 1 / 2\<rfloor>
      in (if x < 0 then ''-'' else []) @ decimal (n div 10) @ ''.'' @ [digit_char (n mod 10)])"

definition difference :: "ExperimentResults \<Rightarrow> real option" where
  "difference results =
     (case (positiveConditionAverage results, negativeConditionAverage results) of
        (Some p, Some n) \<Rightarrow> Some (p - n)
      | _ \<Rightarrow> None)"

definition getImpactStrength :: "real option \<Rightarrow> string" where
  "getImpactStrength diff =
     (case diff of
        None \<Rightarrow> ''Insufficient Data''
      | Some d \<Rightarrow>
          if \<bar>d\<bar> \<ge> 2 then ''Strong''
          else if \<bar>d\<bar> \<ge> 1 then ''Moderate''
          else if \<bar>d\<bar> \<ge> 0.5 then ''Weak''
          else ''Minimal'')"

definition getImpactDirection :: "real option \<Rightarrow> string" where
  "getImpactDirection diff =
     (case diff of
        None \<Rightarrow> []
      | Some d \<Rightarrow> if d > 0 then ''Positive'' else if d < 0 then ''Negative'' else ''No'')"

text \<open>
  \<open>average !== null ? average.toFixed(1) : 'N/A'\<close>
\<close>

definition averageText :: "real option \<Rightarrow> string" where
  "averageText average = (case average of Some v \<Rightarrow> toFixed1 v | None \<Rightarrow> ''N/A'')"

text \<open>
  \<open>{count} day{count !== 1 ? 's' : ''}\<close>
\<close>

definition daysText :: "nat \<Rightarrow> string" where
  "daysText n = decimal n @ '' day'' @ (if n \<noteq> 1 then ''s'' else [])"

text \<open>
  What the dialog shows of the analysis: the two condition cards, and the impact summary
  (heading and badge) when there is a difference.
\<close>

record conditionCard =
  card_average :: string
  card_days :: string

record impactSummary =
  impact_heading :: string
  impact_badge :: string

record analysisPanel =
  positiveCard :: conditionCard
  negativeCard :: conditionCard
  impact :: "impactSummary option"

datatype dialogBody = ResultsAnalysis analysisPanel | InsufficientDataPanel

definition impactOf :: "real option \<Rightarrow> impactSummary option" where
  "impactOf diff =
     (case diff of
        None \<Rightarrow> None
      | Some d \<Rightarrow> Some
          \<lparr>impact_heading = getImpactStrength diff @ '' '' @ getImpactDirection diff @ '' Impact'',
           impact_badge = toFixed1 \<bar>d\<bar> @ '' point difference''\<rparr>)"

text \<open>The dialog renders nothing without results.\<close>

definition ExperimentResultsDialog :: "ExperimentResults option \<Rightarrow> dialogBody option" where
  "ExperimentResultsDialog results =
     (case results of
        None \<Rightarrow> None
      | Some r \<Rightarrow> Some
          (if daysWithData r > 0
           then ResultsAnalysis
                  \<lparr>positiveCard =
                     \<lparr>card_average = averageText (positiveConditionAverage r),
                      card_days = daysText (positiveConditionCount r)\<rparr>,
                   negativeCard =
                     \<lparr>card_average = averageText (negativeConditionAverage r),
                      card_days = daysText (negativeConditionCount r)\<rparr>,
                   impact = impactOf (difference r)\<rparr>
           else InsufficientDataPanel))"

section \<open>Group statistics\<close>

text \<open>
  Modelled from the spec: \<open>analyzeExperimentResults\<close> of \<open>lib/experiments\<close> is not among
  the sources. The condition splitter and the group statistics follow sections 4.2 and 4.3
  of the specification: a day is a pair of the independent and the dependent value, either
  of which may be missing; a boolean value is 1 or 0; a scale value of 6 or more is
  positive and one of 5 or less negative; the specification gives no rule for the other
  types.
\<close>

definition conditionOf :: "metricType \<Rightarrow> real \<Rightarrow> bool option" where
  "conditionOf ty v =
     (case ty of
        BOOLEAN \<Rightarrow> (if v = 1 then Some True else if v = 0 then Some False else None)
      | SCALE_1_10 \<Rightarrow> (if v \<ge> 6 then Some True else if v \<le> 5 then Some False else None)
      | _ \<Rightarrow> None)"

text \<open>
  Modelled from the spec: the dependent values of the days of one condition group; days
  lacking either value are in neither group.
\<close>

definition groupValues :: "metricType \<Rightarrow> bool \<Rightarrow> (real option \<times> real option) list \<Rightarrow> real list" where
  "groupValues ty positive days =
     map (\<lambda>d. the (snd d))
       (filter (\<lambda>d. fst d \<noteq> None \<and> snd d \<noteq> None
                    \<and> conditionOf ty (the (fst d)) = Some positive) days)"

text \<open>
  Modelled from the spec: the mean of a group, unavailable for a group without days.
\<close>

definition groupAverage :: "real list \<Rightarrow> real option" where
  "groupAverage vs = (if vs = [] then None else Some (sum_list vs / real (length vs)))"

text \<open>
  Modelled from the spec: the type that governs the split is that of the experiment's
  independent variable; an experiment whose variable is unknown is split by no rule.
\<close>

definition independentType :: "Experiment \<Rightarrow> metricType" where
  "independentType e =
     (case independent_variable e of Some item \<Rightarrow> item_type item | None \<Rightarrow> TEXT)"

text \<open>
  Modelled from the spec: the results of an experiment from the days of its date range.
\<close>

definition analyzeExperimentResults ::
  "Experiment \<Rightarrow> (real option \<times> real option) list \<Rightarrow> ExperimentResults" where
  "analyzeExperimentResults e days =
     \<lparr>results_experiment = e,
      positiveConditionAverage = groupAverage (groupValues (independentType e) True days),
      negativeConditionAverage = groupAverage (groupValues (independentType e) False days),
      positiveConditionCount = length (groupValues (independentType e) True days),
      negativeConditionCount = length (groupValues (independentType e) False days),
      totalDays = length days,
      daysWithData = length (filter (\<lambda>d. fst d \<noteq> None \<and> snd d \<noteq> None) days)\<rparr>"

section \<open>Lab page\<close>

text \<open>The argument of \<open>updateStatusMutation.mutate\<close>.\<close>

record statusMutation =
  mutation_id :: string
  mutation_status :: experimentStatus

text \<open>
  The callback of the filter that computes \<open>activeExperiments\<close>: besides deciding whether
  the experiment is kept, it requests the completion of an active experiment whose end date
  is before today. The accumulator holds the experiments kept and the mutations requested
  so far.
\<close>

definition activeStep ::
  "string \<Rightarrow> Experiment \<Rightarrow> Experiment list \<times> statusMutation list
     \<Rightarrow> Experiment list \<times> statusMutation list" where
  "activeStep today ex acc =
     (if status ex = ACTIVE \<and> end_date ex < today
      then (fst acc, snd acc @ [\<lparr>mutation_id = exp_id ex, mutation_status = COMPLETED\<rparr>])
      else if status ex = ACTIVE then (fst acc @ [ex], snd acc)
      else acc)"

definition activeExperiments ::
  "string \<Rightarrow> Experiment list \<Rightarrow> Experiment list \<times> statusMutation list" where
  "activeExperiments today experiments = fold (activeStep today) experiments ([], [])"

definition completedExperiments :: "Experiment list \<Rightarrow> Experiment list" where
  "completedExperiments experiments = filter (\<lambda>ex. status ex = COMPLETED) experiments"

datatype labTab = ActiveTab | CompletedTab

record LabPage =
  experiments :: "Experiment list"
  activeTab :: labTab
  analyzingId :: "string option"
  statusPending :: bool
  deletePending :: bool

definition experimentsToDisplay :: "string \<Rightarrow> LabPage \<Rightarrow> Experiment list" where
  "experimentsToDisplay today page =
     (if activeTab page = ActiveTab then fst (activeExperiments today (experiments page))
      else completedExperiments (experiments page))"

datatype cardButton = ViewResults | Complete | Reactivate | Edit | Delete

text \<open>
  The buttons of an experiment's card that can be pressed: those rendered for its status
  and not disabled.
\<close>

definition cardButtons :: "LabPage \<Rightarrow> Experiment \<Rightarrow> cardButton list" where
  "cardButtons page ex =
     (if status ex = COMPLETED \<and> analyzingId page \<noteq> Some (exp_id ex) then [ViewResults] else [])
     @ (if status ex = ACTIVE \<and> \<not> statusPending page then [Complete] else [])
     @ (if status ex = COMPLETED \<and> \<not> statusPending page then [Reactivate] else [])
     @ [Edit]
     @ (if \<not> deletePending page then [Delete] else [])"

definition handleCompleteExperiment :: "string \<Rightarrow> statusMutation list" where
  "handleCompleteExperiment i = [\<lparr>mutation_id = i, mutation_status = COMPLETED\<rparr>]"

definition handleReactivateExperiment :: "string \<Rightarrow> statusMutation list" where
  "handleReactivateExperiment i = [\<lparr>mutation_id = i, mutation_status = ACTIVE\<rparr>]"

text \<open>
  Pressing a button of a displayed card: the status mutations requested, or \<open>None\<close> when
  there is no such button to press. Viewing, editing and deleting request no status
  mutation.
\<close>

definition pressButton ::
  "string \<Rightarrow> LabPage \<Rightarrow> Experiment \<Rightarrow> cardButton \<Rightarrow> statusMutation list option" where
  "pressButton today page ex button =
     (if ex \<in> set (experimentsToDisplay today page) \<and> button \<in> set (cardButtons page ex)
      then Some (case button of
                   Complete \<Rightarrow> handleCompleteExperiment (exp_id ex)
                 | Reactivate \<Rightarrow> handleReactivateExperiment (exp_id ex)
                 | _ \<Rightarrow> [])
      else None)"

section \<open>Sample data\<close>

definition moodItem :: TrackableItem where
  "moodItem = \<lparr>item_id = ''m1'', item_name = ''Mood'', item_category = OUTPUT,
     item_type = SCALE_1_10\<rparr>"

definition coffeeItem :: TrackableItem where
  "coffeeItem = \<lparr>item_id = ''m2'', item_name = ''Coffee'', item_category = INPUT,
     item_type = BOOLEAN\<rparr>"

definition stepsItem :: TrackableItem where
  "stepsItem = \<lparr>item_id = ''m3'', item_name = ''Steps'', item_category = OUTPUT,
     item_type = NUMERIC\<rparr>"

definition point :: "string \<Rightarrow> real option \<Rightarrow> real option \<Rightarrow> DualMetricChartData" where
  "point d p c = \<lparr>date = d, formattedDate = d, primaryValue = p, comparisonValue = c,
     normalizedComparisonValue = None\<rparr>"

definition threeDays :: "DualMetricChartData list" where
  "threeDays = [point ''2024-01-01'' (Some 6) (Some 1), point ''2024-01-02'' (Some 4) (Some 0),
     point ''2024-01-03'' None None, point ''2024-01-04'' (Some 9) None]"

definition emptyDays :: "DualMetricChartData list" where
  "emptyDays = [point ''2024-01-01'' None None, point ''2024-01-02'' None None]"

definition okEnv :: voteEnv where
  "okEnv = \<lparr>getUser = Returns (Some ''alice''), fetchError = Returns None,
     writeError = Returns None, voteProcessor = InvokeOk, revalidateThrows = False\<rparr>"

definition voteOf :: "string \<Rightarrow> string \<Rightarrow> voteType \<Rightarrow> voteRow" where
  "voteOf u f t = \<lparr>user_id = u, finding_id = f, vote_type = t\<rparr>"

definition someVotes :: "voteRow list" where
  "someVotes = [voteOf ''alice'' ''f1'' upvote, voteOf ''bob'' ''f1'' downvote]"

definition coffeeMood :: "string \<Rightarrow> string \<Rightarrow> experimentStatus \<Rightarrow> Experiment" where
  "coffeeMood i ending st =
     \<lparr>exp_id = i, title = ''Coffee and mood'', hypothesis = ''Coffee lifts my mood'',
      start_date = ''2024-01-01'', end_date = ending, status = st,
      independent_variable = Some coffeeItem, dependent_variable = Some moodItem\<rparr>"

definition labExperiments :: "Experiment list" where
  "labExperiments =
     [coffeeMood ''e1'' ''2024-12-31'' ACTIVE, coffeeMood ''e2'' ''2024-01-31'' ACTIVE,
      coffeeMood ''e3'' ''2024-01-15'' COMPLETED]"

definition labPage :: "labTab \<Rightarrow> LabPage" where
  "labPage tab = \<lparr>experiments = labExperiments, activeTab = tab, analyzingId = None,
     statusPending = False, deletePending = False\<rparr>"

definition oneSidedResults :: ExperimentResults where
  "oneSidedResults =
     \<lparr>results_experiment = coffeeMood ''e3'' ''2024-01-15'' COMPLETED,
      positiveConditionAverage = None, negativeConditionAverage = Some 0,
      positiveConditionCount = 0, negativeConditionCount = 3,
      totalDays = 15, daysWithData = 3\<rparr>"

definition noDataResults :: ExperimentResults where
  "noDataResults =
     \<lparr>results_experiment = coffeeMood ''e3'' ''2024-01-15'' COMPLETED,
      positiveConditionAverage = None, negativeConditionAverage = None,
      positiveConditionCount = 0, negativeConditionCount = 0,
      totalDays = 15, daysWithData = 0\<rparr>"

definition sleepItem :: TrackableItem where
  "sleepItem = \<lparr>item_id = ''m4'', item_name = ''Sleep quality'', item_category = INPUT,
     item_type = SCALE_1_10\<rparr>"

text \<open>
  A rounding that errs downwards by the full relative error wherever it may: exact on 1 and
  on magnitudes above 1000.
\<close>

definition roundDown64 :: "real \<Rightarrow> real" where
  "roundDown64 x = (if x = 1 \<or> 1000 < \<bar>x\<bar> then x else x * (1 - 1 / 2 ^ 53))"

text \<open>
  A rounding that is exact except that it takes the magnitudes up to \<open>2^-1075\<close>, half the
  least subnormal number, to zero.
\<close>

definition flushTiny64 :: "real \<Rightarrow> real" where
  "flushTiny64 x = (if \<bar>x\<bar> \<le> 1 / 2 ^ 1075 then 0 else x)"

section \<open>Lemmas on the axis synchronizer\<close>

lemma maxOr10_Max: "values \<noteq> [] \<Longrightarrow> maxOr10 values = Max (set values)"
proof (cases "values")
  case Nil
  assume "values \<noteq> []"
  with Nil show ?thesis by simp
next
  case (Cons v vs)
  have "fold max vs v = Max (set (v # vs))"
    by (simp only: Max.set_eq_fold)
  with Cons show ?thesis by (simp add: maxOr10_def)
qed

lemma set_nonNull: "set (nonNull vs) = {v. Some v \<in> set vs}"
  by (force simp: nonNull_def image_iff)

lemma nonNull_all_None: "\<forall>v \<in> set vs. v = None \<Longrightarrow> nonNull vs = []"
  by (induction vs) (simp_all add: nonNull_def)

lemma primaryMax_all_None:
  "\<forall>d \<in> set raw. primaryValue d = None \<Longrightarrow> primaryMax raw = 10"
  by (simp add: primaryMax_def nonNull_all_None maxOr10_def)

lemma comparisonMax_all_None:
  "\<forall>d \<in> set raw. comparisonValue d = None \<Longrightarrow> comparisonMax raw = 10"
  by (simp add: comparisonMax_def nonNull_all_None maxOr10_def)

lemma normalizeBoolean_keeps:
  "primaryValue (normalizeBoolean d) = primaryValue d"
  "comparisonValue (normalizeBoolean d) = comparisonValue d"
  by (simp_all add: normalizeBoolean_def)

lemma chartData_empty: "chartData (axisSync pmo cmo raw) = [] \<longleftrightarrow> raw = []"
  by (cases pmo; cases cmo) (simp_all add: axisSync_def Let_def)

section \<open>Scenario C: boolean comparison on a 1-10 primary scale\<close>

text \<open>
  C1, as amended. For every non-empty chart dataset whose primary metric has type
  \<open>SCALE_1_10\<close> and whose comparison metric has type \<open>BOOLEAN\<close>, the axis synchronizer
  produces \<open>rightTicks = [2.5, 7.5]\<close>, \<open>rightDomain = [1, 10]\<close> and
  \<open>normalizeComparison = true\<close>, and the chart data has one point per raw point, whose
  \<open>normalizedComparisonValue\<close> is 7.5 where the comparison value is 1, 2.5 where it is 0,
  and \<open>null\<close> where it is missing.
\<close>

theorem scenarioC_boolean_normalization:
  assumes "raw \<noteq> []" "item_type pm = SCALE_1_10" "item_type cm = BOOLEAN"
  shows "map_option rightTicks (axisConfig (axisSync (Some pm) (Some cm) raw)) = Some (Some [2.5, 7.5])
    \<and> map_option rightDomain (axisConfig (axisSync (Some pm) (Some cm) raw)) = Some (1, 10)
    \<and> map_option normalizeComparison (axisConfig (axisSync (Some pm) (Some cm) raw)) = Some True
    \<and> length (chartData (axisSync (Some pm) (Some cm) raw)) = length raw
    \<and> (\<forall>i < length raw.
          (comparisonValue (raw ! i) = Some 1 \<longrightarrow>
             normalizedComparisonValue (chartData (axisSync (Some pm) (Some cm) raw) ! i)
               = Some (Some 7.5))
        \<and> (comparisonValue (raw ! i) = Some 0 \<longrightarrow>
             normalizedComparisonValue (chartData (axisSync (Some pm) (Some cm) raw) ! i)
               = Some (Some 2.5))
        \<and> (comparisonValue (raw ! i) = None \<longrightarrow>
             normalizedComparisonValue (chartData (axisSync (Some pm) (Some cm) raw) ! i)
               = Some None))"
  using assms by (simp add: axisSync_def normalizeBoolean_def)

theorem scenarioC_boolean_normalization_witness:
  "threeDays \<noteq> [] \<and> item_type moodItem = SCALE_1_10 \<and> item_type coffeeItem = BOOLEAN
   \<and> map_option rightTicks (axisConfig (axisSync (Some moodItem) (Some coffeeItem) threeDays))
       = Some (Some [2.5, 7.5])
   \<and> comparisonValue (threeDays ! 0) = Some 1
   \<and> normalizedComparisonValue (chartData (axisSync (Some moodItem) (Some coffeeItem) threeDays) ! 0)
       = Some (Some 7.5)
   \<and> comparisonValue (threeDays ! 1) = Some 0
   \<and> normalizedComparisonValue (chartData (axisSync (Some moodItem) (Some coffeeItem) threeDays) ! 1)
       = Some (Some 2.5)
   \<and> comparisonValue (threeDays ! 2) = None
   \<and> normalizedComparisonValue (chartData (axisSync (Some moodItem) (Some coffeeItem) threeDays) ! 2)
       = Some None"
proof -
  have h1: "threeDays \<noteq> []" by (simp add: threeDays_def)
  have h2: "item_type moodItem = SCALE_1_10" by (simp add: moodItem_def)
  have h3: "item_type coffeeItem = BOOLEAN" by (simp add: coffeeItem_def)
  have v: "comparisonValue (threeDays ! 0) = Some 1" "comparisonValue (threeDays ! 1) = Some 0"
    "comparisonValue (threeDays ! 2) = None" "length threeDays = 4"
    by (simp_all add: threeDays_def point_def)
  from scenarioC_boolean_normalization [OF h1 h2 h3] h1 h2 h3 v show ?thesis by simp
qed

text \<open>
  With no data points the synchronizer returns no axis configuration at all, whatever the
  two metric types are.
\<close>

theorem scenarioC_empty_dataset_counterexample:
  "item_type moodItem = SCALE_1_10 \<and> item_type coffeeItem = BOOLEAN
   \<and> axisConfig (axisSync (Some moodItem) (Some coffeeItem) []) = None
   \<and> map_option rightTicks (axisConfig (axisSync (Some moodItem) (Some coffeeItem) []))
       \<noteq> Some (Some [2.5, 7.5])"
  by (simp add: axisSync_def moodItem_def coffeeItem_def)

section \<open>Domains of a series without values\<close>

text \<open>
  C3, as amended. For every non-empty chart dataset in which all values of a series are
  missing, the maximum assumed for that series falls back to 10. The left domain of an
  all-missing primary series is then \<open>[1, 10]\<close> for a \<open>SCALE_1_10\<close> metric and
  \<open>[0, 11]\<close> otherwise (the headroom factor 1.1 applies to the fallback). The right domain
  of an all-missing comparison series is \<open>[0, 10]\<close> when no comparison metric is selected,
  the left domain's \<open>[0, max(primaryMax * 1.1, 1)]\<close> in the NUMERIC/SCALE_1_10 scenario,
  \<open>[1, 10]\<close> for any other \<open>SCALE_1_10\<close> comparison metric and for a boolean comparison
  of a \<open>SCALE_1_10\<close> primary metric, and \<open>[0, 11]\<close> in every other case.
\<close>

theorem all_null_domain_fallback:
  assumes "raw \<noteq> []"
  shows "((\<forall>d \<in> set raw. primaryValue d = None) \<longrightarrow>
            primaryMax raw = 10
          \<and> map_option leftDomain (axisConfig (axisSync (Some pm) cmo raw))
              = Some (if item_type pm = SCALE_1_10 then (1, 10) else (0, 11)))
       \<and> ((\<forall>d \<in> set raw. comparisonValue d = None) \<longrightarrow>
            comparisonMax raw = 10
          \<and> map_option rightDomain (axisConfig (axisSync (Some pm) None raw)) = Some (0, 10)
          \<and> map_option rightDomain (axisConfig (axisSync (Some pm) (Some cm) raw))
              = Some (if item_type pm = NUMERIC \<and> item_type cm = SCALE_1_10
                        then (0, max (primaryMax raw * 1.1) 1)
                      else if item_type cm = SCALE_1_10
                              \<or> (item_type pm = SCALE_1_10 \<and> item_type cm = BOOLEAN)
                        then (1, 10)
                      else (0, 11)))"
proof (intro conjI impI)
  assume a: "\<forall>d \<in> set raw. primaryValue d = None"
  then show m: "primaryMax raw = 10" by (rule primaryMax_all_None)
  show "map_option leftDomain (axisConfig (axisSync (Some pm) cmo raw))
          = Some (if item_type pm = SCALE_1_10 then (1, 10) else (0, 11))"
    using assms m by (cases cmo) (simp_all add: axisSync_def Let_def)
next
  assume a: "\<forall>d \<in> set raw. comparisonValue d = None"
  then show m: "comparisonMax raw = 10" by (rule comparisonMax_all_None)
  show "map_option rightDomain (axisConfig (axisSync (Some pm) None raw)) = Some (0, 10)"
    using assms by (simp add: axisSync_def)
  show "map_option rightDomain (axisConfig (axisSync (Some pm) (Some cm) raw))
          = Some (if item_type pm = NUMERIC \<and> item_type cm = SCALE_1_10
                    then (0, max (primaryMax raw * 1.1) 1)
                  else if item_type cm = SCALE_1_10
                          \<or> (item_type pm = SCALE_1_10 \<and> item_type cm = BOOLEAN)
                    then (1, 10)
                  else (0, 11))"
    using assms m by (simp add: axisSync_def Let_def)
qed

theorem all_null_domain_fallback_witness:
  "emptyDays \<noteq> []
   \<and> map primaryValue emptyDays = [None, None]
   \<and> map comparisonValue emptyDays = [None, None]
   \<and> map_option leftDomain (axisConfig (axisSync (Some stepsItem) (Some coffeeItem) emptyDays))
       = Some (0, 11)
   \<and> map_option rightDomain (axisConfig (axisSync (Some stepsItem) (Some coffeeItem) emptyDays))
       = Some (0, 11)
   \<and> map_option leftDomain (axisConfig (axisSync (Some moodItem) (Some coffeeItem) emptyDays))
       = Some (1, 10)"
proof -
  have h1: "emptyDays \<noteq> []" by (simp add: emptyDays_def)
  have h2: "\<forall>d \<in> set emptyDays. primaryValue d = None" by (simp add: emptyDays_def point_def)
  have h3: "\<forall>d \<in> set emptyDays. comparisonValue d = None" by (simp add: emptyDays_def point_def)
  have t: "item_type stepsItem = NUMERIC" "item_type coffeeItem = BOOLEAN"
    "item_type moodItem = SCALE_1_10"
    by (simp_all add: stepsItem_def coffeeItem_def moodItem_def)
  have m: "map primaryValue emptyDays = [None, None]" "map comparisonValue emptyDays = [None, None]"
    by (simp_all add: emptyDays_def point_def)
  from all_null_domain_fallback [OF h1, of stepsItem "Some coffeeItem" coffeeItem]
       all_null_domain_fallback [OF h1, of moodItem "Some coffeeItem" coffeeItem]
       h1 h2 h3 t m
  show ?thesis by simp
qed

text \<open>
  A numeric primary metric without any value gets the left domain \<open>[0, 11]\<close>, and a
  numeric comparison metric without any value the right domain \<open>[0, 11]\<close>: neither is
  \<open>[0, 10]\<close>.
\<close>

theorem all_null_domain_counterexample:
  "map primaryValue emptyDays = [None, None]
   \<and> map comparisonValue emptyDays = [None, None]
   \<and> map_option leftDomain (axisConfig (axisSync (Some stepsItem) None emptyDays)) = Some (0, 11)
   \<and> map_option leftDomain (axisConfig (axisSync (Some stepsItem) None emptyDays)) \<noteq> Some (0, 10)
   \<and> map_option rightDomain (axisConfig (axisSync (Some moodItem) (Some stepsItem) emptyDays))
       = Some (0, 11)
   \<and> map_option rightDomain (axisConfig (axisSync (Some moodItem) (Some stepsItem) emptyDays))
       \<noteq> Some (0, 10)"
  by (simp add: axisSync_def emptyDays_def point_def stepsItem_def moodItem_def primaryMax_def
        comparisonMax_def nonNull_def maxOr10_def)

section \<open>The left axis domain\<close>

text \<open>
  C4. For every non-empty chart dataset and primary metric, whatever the comparison metric
  (none, a named scenario or the default case), the left axis domain is \<open>[1, 10]\<close> when
  the primary metric's type is \<open>SCALE_1_10\<close> and \<open>[0, max(observedMax * 1.1, 1)]\<close>
  otherwise, where \<open>observedMax\<close> (the source's \<open>primaryMax\<close>) is the maximum of the
  non-null primary values whenever there is one.
\<close>

theorem leftDomain_by_primary_type:
  assumes "raw \<noteq> []"
  shows "map_option leftDomain (axisConfig (axisSync (Some pm) cmo raw))
        = Some (if item_type pm = SCALE_1_10 then (1, 10)
                else (0, max (primaryMax raw * 1.1) 1))
     \<and> ((\<exists>d \<in> set raw. primaryValue d \<noteq> None) \<longrightarrow>
          primaryMax raw = Max {v. \<exists>d \<in> set raw. primaryValue d = Some v})"
proof -
  have dom: "map_option leftDomain (axisConfig (axisSync (Some pm) cmo raw))
        = Some (if item_type pm = SCALE_1_10 then (1, 10)
                else (0, max (primaryMax raw * 1.1) 1))"
    using assms by (cases cmo) (auto simp add: axisSync_def Let_def)
  have mx: "primaryMax raw = Max {v. \<exists>d \<in> set raw. primaryValue d = Some v}"
    if ex: "\<exists>d \<in> set raw. primaryValue d \<noteq> None"
  proof -
    have s: "set (nonNull (map primaryValue raw)) = {v. \<exists>d \<in> set raw. primaryValue d = Some v}"
      by (force simp: set_nonNull image_iff)
    from ex have "{v. \<exists>d \<in> set raw. primaryValue d = Some v} \<noteq> {}" by auto
    with s have "nonNull (map primaryValue raw) \<noteq> []" by (metis set_empty)
    then show ?thesis unfolding primaryMax_def by (simp add: maxOr10_Max s)
  qed
  from dom mx show ?thesis by blast
qed

theorem leftDomain_by_primary_type_witness:
  "threeDays \<noteq> []
   \<and> primaryValue (threeDays ! 3) = Some 9
   \<and> primaryMax threeDays = 9
   \<and> map_option leftDomain (axisConfig (axisSync (Some stepsItem) (Some coffeeItem) threeDays))
       = Some (0, 9.9)
   \<and> map_option leftDomain (axisConfig (axisSync (Some moodItem) None threeDays))
       = Some (1, 10)"
proof -
  have h1: "threeDays \<noteq> []" by (simp add: threeDays_def)
  have t: "item_type stepsItem = NUMERIC" "item_type moodItem = SCALE_1_10"
    by (simp_all add: stepsItem_def moodItem_def)
  have v: "primaryValue (threeDays ! 3) = Some 9"
    by (simp add: threeDays_def point_def)
  have m: "primaryMax threeDays = 9"
    by (simp add: primaryMax_def threeDays_def point_def nonNull_def maxOr10_def)
  from leftDomain_by_primary_type [OF h1, of stepsItem "Some coffeeItem"]
       leftDomain_by_primary_type [OF h1, of moodItem None] h1 t v m
  show ?thesis by simp
qed

section \<open>Scenario A: tick labels\<close>

lemma tick_nth:
  assumes "1 \<le> i" "i \<le> 10"
  shows "ticksA scaledMax ! (i - 1) = (real i / 10) * scaledMax"
proof -
  from assms have "i - 1 < 10" by simp
  then have "ticksA scaledMax ! (i - 1) = ((real (i - 1) + 1) / 10) * scaledMax"
    unfolding ticksA_def by (simp del: upt_Suc)
  also from assms have "real (i - 1) + 1 = real i" by simp
  finally show ?thesis .
qed

lemma round_tick:
  assumes "0 < scaledMax"
  shows "Math_round ((((real i / 10) * scaledMax) / scaledMax) * 10) = int i"
proof -
  from assms have "(((real i / 10) * scaledMax) / scaledMax) * 10 = real i" by simp
  then show ?thesis by (simp add: Math_round_def)
qed

lemma one_to_ten:
  "1 \<le> i \<Longrightarrow> i \<le> 10 \<Longrightarrow>
   i = 1 \<or> i = 2 \<or> i = 3 \<or> i = 4 \<or> i = 5 \<or> i = 6 \<or> i = 7 \<or> i = 8 \<or> i = 9 \<or> i = (10::nat)"
  by arith

lemma toString_labels:
  assumes "1 \<le> i" "i \<le> 10"
  shows "toString (int i)
    = scaleLabels ! (i - 1)"
  using one_to_ten [OF assms]
  by (elim disjE) (simp_all add: toString_def decimal.simps digit_char_def scaleLabels_def)

lemma MAX_VALUE_ge: "2 ^ 1023 \<le> MAX_VALUE"
  by (simp add: MAX_VALUE_def)

lemma MAX_VALUE_lt: "MAX_VALUE < 2 ^ 1024"
  by (simp add: MAX_VALUE_def)

lemma MIN_NORMAL_le: "MIN_NORMAL \<le> 1 / 16"
  by (simp add: MIN_NORMAL_def)

lemma thousand_le_MAX: "1000 \<le> MAX_VALUE"
  by (simp add: MAX_VALUE_def)


lemma MIN_NORMAL_pos: "0 < MIN_NORMAL"
  by (simp add: MIN_NORMAL_def)

lemma rnd_bounds:
  assumes "nearest64 rnd" "MIN_NORMAL \<le> lo" "lo \<le> x" "x \<le> hi"
  shows "999 / 1000 * lo \<le> rnd x" and "rnd x \<le> 1001 / 1000 * hi"
proof -
  from assms(2,3) MIN_NORMAL_pos have xp: "0 < x" and xn: "MIN_NORMAL \<le> \<bar>x\<bar>" by simp_all
  from assms(1) xn have "\<bar>rnd x - x\<bar> \<le> \<bar>x\<bar> / 2 ^ 53"
    unfolding nearest64_def by blast
  with xp have e: "\<bar>rnd x - x\<bar> \<le> x / 2 ^ 53" by simp
  from xp have "x / 2 ^ 53 \<le> x / 1000" by (simp add: field_simps)
  with e have b: "\<bar>rnd x - x\<bar> \<le> x / 1000" by linarith
  from b have lower: "x - x / 1000 \<le> rnd x" and upper: "rnd x \<le> x + x / 1000"
    by linarith+
  from lower assms(3) show "999 / 1000 * lo \<le> rnd x" by linarith
  from upper assms(4) show "rnd x \<le> 1001 / 1000 * hi" by linarith
qed

lemma fin_Finite: "- MAX_VALUE \<le> rnd x \<Longrightarrow> rnd x \<le> MAX_VALUE \<Longrightarrow> fin rnd x = Finite (rnd x)"
  by (simp add: fin_def Let_def)

lemma tick64_finite:
  assumes n: "nearest64 rnd" and i: "1 \<le> i" "i \<le> 10"
    and s: "16 * MIN_NORMAL \<le> s" "s \<le> MAX_VALUE"
  shows "\<exists>t. ticksA64 rnd (Finite s) ! (i - 1) = Finite t
           \<and> 999 / 1000 * (999 / 1000 * (real i / 10) * s) \<le> t
           \<and> t \<le> 1001 / 1000 * (1001 / 1000 * (real i / 10) * s)"
proof -
  define r where "r = real i / 10"
  define a where "a = rnd r"
  define t where "t = rnd (a * s)"
  from i have r: "1 / 10 \<le> r" "r \<le> 1" by (simp_all add: r_def)
  have mn: "MIN_NORMAL \<le> 1 / 16" by (rule MIN_NORMAL_le)
  have mx: "2 ^ 1023 \<le> MAX_VALUE" by (rule MAX_VALUE_ge)
  then have mx2: "2 \<le> MAX_VALUE" by (simp add: order_trans [of 2 "2 ^ 1023" MAX_VALUE])
  \<comment> \<open>the quotient \<open>i / 10\<close>\<close>
  from mn r have "MIN_NORMAL \<le> r" by linarith
  from rnd_bounds [OF n this order_refl order_refl]
  have a: "999 / 1000 * r \<le> a" "a \<le> 1001 / 1000 * r" by (simp_all add: a_def)
  have a1: "a \<le> 1"
  proof (cases "i = 10")
    case True
    then have "r = 1" by (simp add: r_def)
    with n show ?thesis by (simp add: a_def nearest64_def)
  next
    case False
    with i have "real i \<le> 9" by simp
    then have "r \<le> 9 / 10" by (simp add: r_def)
    with a(2) show ?thesis by linarith
  qed
  from a r have ap: "0 < a" by linarith
  from a1 ap mx2 have fa: "fin rnd r = Finite a"
    unfolding a_def by (intro fin_Finite) (simp_all add: a_def)
  \<comment> \<open>the product with \<open>scaledMax\<close>\<close>
  from s MIN_NORMAL_pos have sp: "0 < s" by linarith
  from a sp have as: "999 / 1000 * r * s \<le> a * s" "a * s \<le> 1001 / 1000 * r * s"
    by (simp_all add: mult_right_mono)
  from r s MIN_NORMAL_pos have "1 / 10 * (16 * MIN_NORMAL) \<le> r * s"
    by (intro mult_mono) simp_all
  moreover have "999 / 1000 * r * s = 999 / 1000 * (r * s)" by simp
  ultimately have lo: "MIN_NORMAL \<le> 999 / 1000 * r * s"
    using MIN_NORMAL_pos by linarith
  from rnd_bounds [OF n lo as]
  have t: "999 / 1000 * (999 / 1000 * r * s) \<le> t" "t \<le> 1001 / 1000 * (1001 / 1000 * r * s)"
    by (simp_all add: t_def)
  from a1 ap sp have "a * s \<le> s" by (simp add: mult_left_le_one_le)
  with s have "a * s \<le> MAX_VALUE" by linarith
  with n have tm: "t \<le> MAX_VALUE" by (simp add: t_def nearest64_def)
  from t(1) lo MIN_NORMAL_pos have tp: "0 < t" by linarith
  from tm tp mx2 have ft: "fin rnd (a * s) = Finite t"
    unfolding t_def by (intro fin_Finite) (simp_all add: t_def)
  from i have idx: "i - 1 < 10" "real (i - 1) + 1 = real i" by simp_all
  have "ticksA64 rnd (Finite s) ! (i - 1) = Finite t"
    using idx fa ft by (simp add: ticksA64_def r_def del: upt_Suc)
  with t show ?thesis by (simp add: r_def)
qed


lemma formatterA64_label:
  assumes n: "nearest64 rnd" and i: "1 \<le> i" "i \<le> 10" and sp: "0 < s"
    and t: "999 / 1000 * (999 / 1000 * (real i / 10) * s) \<le> t"
           "t \<le> 1001 / 1000 * (1001 / 1000 * (real i / 10) * s)"
  shows "formatterA64 rnd (Finite s) (Finite t) = toString (int i)"
proof -
  define q where "q = rnd (t / s)"
  define x where "x = rnd (q * 10)"
  from i have ri: "1 \<le> real i" "real i \<le> 10" by simp_all
  have mn: "MIN_NORMAL \<le> 1 / 16" by (rule MIN_NORMAL_le)
  have "2 ^ 1023 \<le> MAX_VALUE" by (rule MAX_VALUE_ge)
  then have mx: "20 \<le> MAX_VALUE" by (simp add: order_trans [of 20 "2 ^ 1023" MAX_VALUE])
  \<comment> \<open>the quotient \<open>value / scaledMax\<close>\<close>
  from t sp have d: "999 / 1000 * (999 / 1000 * (real i / 10)) \<le> t / s"
    "t / s \<le> 1001 / 1000 * (1001 / 1000 * (real i / 10))"
    by (simp_all add: field_simps)
  from mn ri have lo: "MIN_NORMAL \<le> 999 / 1000 * (999 / 1000 * (real i / 10))" by simp
  from rnd_bounds [OF n lo d]
  have q: "999 / 1000 * (999 / 1000 * (999 / 1000 * (real i / 10))) \<le> q"
    "q \<le> 1001 / 1000 * (1001 / 1000 * (1001 / 1000 * (real i / 10)))"
    by (simp_all add: q_def)
  from q ri have qb: "0 < q" "q \<le> 2" by simp_all
  with mx have fq: "fin rnd (t / s) = Finite q"
    unfolding q_def by (intro fin_Finite) (simp_all add: q_def)
  \<comment> \<open>the product with 10\<close>
  from q have p: "999 / 1000 * (999 / 1000 * (999 / 1000 * (real i / 10))) * 10 \<le> q * 10"
    "q * 10 \<le> 1001 / 1000 * (1001 / 1000 * (1001 / 1000 * (real i / 10))) * 10"
    by simp_all
  from mn ri have lo': "MIN_NORMAL \<le> 999 / 1000 * (999 / 1000 * (999 / 1000 * (real i / 10))) * 10"
    by simp
  from rnd_bounds [OF n lo' p]
  have x: "999 / 1000 * (999 / 1000 * (999 / 1000 * (999 / 1000 * (real i / 10))) * 10) \<le> x"
    "x \<le> 1001 / 1000 * (1001 / 1000 * (1001 / 1000 * (1001 / 1000 * (real i / 10))) * 10)"
    by (simp_all add: x_def)
  from x ri have xb: "0 < x" "x \<le> 20" by simp_all
  with mx have fx: "fin rnd (q * 10) = Finite x"
    unfolding x_def by (intro fin_Finite) (simp_all add: x_def)
  \<comment> \<open>rounding to the nearest integer absorbs the error\<close>
  from x ri have "real i - 1 / 2 \<le> x" "x < real i + 1 / 2" by simp_all
  then have "Math_round x = int i"
    unfolding Math_round_def by (intro floor_unique) simp_all
  with sp fq fx i show ?thesis
    by (simp add: formatterA64_def Let_def)
qed


lemma ticksA64_overflow:
  assumes n: "nearest64 rnd" and i: "1 \<le> i" "i \<le> 10"
  shows "ticksA64 rnd PosInfinity ! (i - 1) = PosInfinity"
proof -
  define a where "a = rnd (real i / 10)"
  from i have r: "1 / 16 \<le> real i / 10" "real i / 10 \<le> 1" by simp_all
  from MIN_NORMAL_le r(1) have "MIN_NORMAL \<le> real i / 10" by linarith
  from rnd_bounds [OF n this order_refl order_refl]
  have a: "999 / 1000 * (real i / 10) \<le> a" "a \<le> 1001 / 1000 * (real i / 10)"
    by (simp_all add: a_def)
  from a r have ab: "0 < a" "a \<le> 2" by simp_all
  have "2 ^ 1023 \<le> MAX_VALUE" by (rule MAX_VALUE_ge)
  then have "2 \<le> MAX_VALUE" by (simp add: order_trans [of 2 "2 ^ 1023" MAX_VALUE])
  with ab have fa: "fin rnd (real i / 10) = Finite a"
    unfolding a_def by (intro fin_Finite) (simp_all add: a_def)
  from i have idx: "i - 1 < 10" "real (i - 1) + 1 = real i" by simp_all
  from idx fa ab show ?thesis
    by (simp add: ticksA64_def signedInfinity_def del: upt_Suc)
qed

lemma formatterA64_overflow: "formatterA64 rnd PosInfinity PosInfinity = []"
  by (simp add: formatterA64_def)

lemma fin_cases:
  "fin rnd x = PosInfinity \<or> fin rnd x = NegInfinity
   \<or> (\<exists>y. fin rnd x = Finite y \<and> - MAX_VALUE \<le> y \<and> y \<le> MAX_VALUE)"
  by (simp add: fin_def Let_def)

lemma one_le_MAX: "1 \<le> MAX_VALUE"
  using MAX_VALUE_ge by (simp add: order_trans [of 1 "2 ^ 1023" MAX_VALUE])

lemma scaledMax64_cases:
  "scaledMax64 rnd (Finite pmax) = PosInfinity
   \<or> (\<exists>s. scaledMax64 rnd (Finite pmax) = Finite s \<and> 1 \<le> s \<and> s \<le> MAX_VALUE)"
  using fin_cases [of rnd "pmax * rnd 1.1"] one_le_MAX
  by (auto simp: scaledMax64_def Math_max64_def)

lemma scaledMax64_overflow:
  assumes n: "nearest64 rnd" and p: "15 * 2 ^ 1020 \<le> pmax"
  shows "scaledMax64 rnd (Finite pmax) = PosInfinity"
proof -
  define c where "c = rnd 1.1"
  define P :: real where "P = 2 ^ 1020"
  have Pp: "0 < P" by (simp add: P_def)
  have mx: "MAX_VALUE < 16 * P"
    using MAX_VALUE_lt by (simp add: P_def)
  from MIN_NORMAL_le have "MIN_NORMAL \<le> 1.1" by simp
  from rnd_bounds(1) [OF n this order_refl order_refl]
  have c: "109 / 100 \<le> c" by (simp add: c_def)
  from p have pm: "15 * P \<le> pmax" by (simp add: P_def)
  from pm c Pp have "15 * P * (109 / 100) \<le> pmax * c"
    by (intro mult_mono) simp_all
  then have pr: "1635 / 100 * P \<le> pmax * c" by simp
  from MIN_NORMAL_le Pp have "MIN_NORMAL \<le> 1 / 16" by simp
  moreover have "1 \<le> P" by (simp add: P_def)
  ultimately have lo: "MIN_NORMAL \<le> 1635 / 100 * P" by linarith
  from rnd_bounds(1) [OF n lo pr order_refl]
  have "999 / 1000 * (1635 / 100 * P) \<le> rnd (pmax * c)" .
  with Pp mx have "MAX_VALUE < rnd (pmax * c)" by linarith
  then show ?thesis
    by (simp add: scaledMax64_def Math_max64_def fin_def Let_def c_def)
qed

lemma fin_exact: "- MAX_VALUE \<le> x \<Longrightarrow> x \<le> MAX_VALUE \<Longrightarrow> fin (\<lambda>x. x) x = Finite x"
  by (simp add: fin_def)

lemma formatterA64_exact:
  assumes "0 < s" "0 \<le> v" "v \<le> s"
  shows "formatterA64 (\<lambda>x. x) (Finite s) (Finite v) = formatterA s v"
proof -
  define w where "w = v / s"
  from assms have q: "0 \<le> w" "w \<le> 1" by (simp_all add: w_def)
  have mx: "10 \<le> MAX_VALUE"
    using MAX_VALUE_ge by (simp add: order_trans [of 10 "2 ^ 1023" MAX_VALUE])
  from q mx have "- MAX_VALUE \<le> w" "w \<le> MAX_VALUE" by linarith+
  then have f1: "fin (\<lambda>x. x) w = Finite w" by (rule fin_exact)
  from q mx have "- MAX_VALUE \<le> w * 10" "w * 10 \<le> MAX_VALUE" by linarith+
  then have f2: "fin (\<lambda>x. x) (w * 10) = Finite (w * 10)" by (rule fin_exact)
  have "js_div (\<lambda>x. x) (Finite v) (Finite s) = Finite w"
    using assms(1) f1 by (simp add: w_def)
  then have "js_mul (\<lambda>x. x) (js_div (\<lambda>x. x) (Finite v) (Finite s)) (Finite 10) = Finite (w * 10)"
    using f2 by simp
  then show ?thesis
    unfolding formatterA64_def formatterA_def Let_def by (simp add: w_def)
qed

lemma ticksA64_exact:
  assumes "0 < s" "s \<le> MAX_VALUE"
  shows "ticksA64 (\<lambda>x. x) (Finite s) = map Finite (ticksA s)"
proof -
  have mx: "1 \<le> MAX_VALUE" by (rule one_le_MAX)
  have "js_mul (\<lambda>x. x) (js_div (\<lambda>x. x) (Finite (real i + 1)) (Finite 10)) (Finite s)
      = Finite ((real i + 1) / 10 * s)" if "i < 10" for i
  proof -
    define r where "r = (real i + 1) / 10"
    from that have r: "0 \<le> r" "r \<le> 1" by (simp_all add: r_def)
    with mx have "- MAX_VALUE \<le> r" "r \<le> MAX_VALUE" by linarith+
    then have f1: "fin (\<lambda>x. x) r = Finite r" by (rule fin_exact)
    from r assms have "0 \<le> r * s" "r * s \<le> s"
      by (simp_all add: mult_left_le_one_le)
    with assms mx have "- MAX_VALUE \<le> r * s" "r * s \<le> MAX_VALUE" by linarith+
    then have f2: "fin (\<lambda>x. x) (r * s) = Finite (r * s)" by (rule fin_exact)
    have "js_div (\<lambda>x. x) (Finite (real i + 1)) (Finite 10) = Finite r"
      using f1 by (simp add: r_def)
    then show ?thesis using f2 by (simp add: r_def)
  qed
  then show ?thesis
    unfolding ticksA64_def ticksA_def by (simp del: upt_Suc)
qed

lemma nearest64_exact: "nearest64 (\<lambda>x. x)"
  by (simp add: nearest64_def)

lemma nearest64_roundDown64: "nearest64 roundDown64"
proof -
  have e: "\<bar>roundDown64 x - x\<bar> \<le> \<bar>x\<bar> / 2 ^ 53" for x
  proof (cases "x = 1 \<or> 1000 < \<bar>x\<bar>")
    case True
    then have "roundDown64 x = x" by (auto simp: roundDown64_def)
    then show ?thesis by simp
  next
    case False
    then have "roundDown64 x - x = - (x / 2 ^ 53)"
      by (simp add: roundDown64_def algebra_simps)
    then show ?thesis by simp
  qed
  have m: "roundDown64 x \<le> MAX_VALUE" if "x \<le> MAX_VALUE" for x
  proof (cases "x = 1 \<or> 1000 < \<bar>x\<bar>")
    case True
    then have "roundDown64 x = x" by (auto simp: roundDown64_def)
    with that show ?thesis by simp
  next
    case False
    then have x: "\<bar>x\<bar> \<le> 1000" and r: "roundDown64 x = x * (1 - 1 / 2 ^ 53)"
      by (simp_all add: roundDown64_def)
    have "\<bar>x * (1 - 1 / 2 ^ 53)\<bar> \<le> \<bar>x\<bar>"
      by (simp add: abs_mult mult_left_le)
    with x r have "roundDown64 x \<le> 1000" by linarith
    with thousand_le_MAX show ?thesis by linarith
  qed
  have o: "roundDown64 1 = 1" by (simp add: roundDown64_def)
  from e m o show ?thesis unfolding nearest64_def by blast
qed

lemma formatterA_ticksA:
  assumes "1 \<le> i" "i \<le> 10" "0 < scaledMax"
  shows "formatterA scaledMax (ticksA scaledMax ! (i - 1)) = toString (int i)"
proof -
  have t: "ticksA scaledMax ! (i - 1) = (real i / 10) * scaledMax"
    using assms(1,2) by (rule tick_nth)
  have r: "Math_round ((ticksA scaledMax ! (i - 1) / scaledMax) * 10) = int i"
    unfolding t using assms(3) by (rule round_tick)
  show ?thesis
    unfolding formatterA_def Let_def r using assms(1,2) by simp
qed

lemma scenarioA_config:
  assumes "raw \<noteq> []" "item_type pm = NUMERIC" "item_type cm = SCALE_1_10"
  shows "map_option rightTickFormatter (axisConfig (axisSync (Some pm) (Some cm) raw))
           = Some (Some (formatterA (max (primaryMax raw * 1.1) 1)))"
    and "map_option rightTicks (axisConfig (axisSync (Some pm) (Some cm) raw))
           = Some (Some (ticksA (max (primaryMax raw * 1.1) 1)))"
  using assms by (simp_all add: axisSync_def Let_def)

text \<open>
  C8, as amended. In Scenario A (NUMERIC primary, SCALE_1_10 comparison) the tick
  formatter is a left inverse of the tick placement as long as \<open>scaledMax\<close> is finite.
  For every non-empty dataset whose \<open>primaryMax * 1.1\<close> does not overflow, the
  synchronizer installs the formatter and the ten ticks \<open>(i / 10) * scaledMax\<close> with
  \<open>scaledMax = max(primaryMax * 1.1, 1)\<close>, and for every \<open>i\<close> from 1 to 10 the formatter
  applied to the \<open>i\<close>-th tick yields the decimal label of \<open>i\<close>, one of "1" to "10" and
  never the empty string. This holds in exact arithmetic, and in binary64 arithmetic for
  every \<open>scaledMax\<close> from \<open>2^-1018\<close> to \<open>MAX_VALUE\<close>, where rounding to the nearest
  integer absorbs the rounding errors of the two multiplications and the two divisions.
  The \<open>scaledMax\<close> that the synchronizer computes is either a number from 1 to
  \<open>MAX_VALUE\<close> or \<open>Infinity\<close>; it is \<open>Infinity\<close> once \<open>primaryMax\<close> reaches
  \<open>15 * 2^1020\<close>, all ten ticks are then \<open>Infinity\<close>, and the formatter yields the
  empty string for each.
\<close>

theorem scenarioA_tick_labels:
  assumes "1 \<le> i" "i \<le> 10"
  shows "(raw \<noteq> [] \<and> item_type pm = NUMERIC \<and> item_type cm = SCALE_1_10
            \<and> primaryMax raw * 1.1 \<le> MAX_VALUE \<longrightarrow>
          map_option rightTickFormatter (axisConfig (axisSync (Some pm) (Some cm) raw))
            = Some (Some (formatterA (max (primaryMax raw * 1.1) 1)))
        \<and> map_option rightTicks (axisConfig (axisSync (Some pm) (Some cm) raw))
            = Some (Some (ticksA (max (primaryMax raw * 1.1) 1)))
        \<and> ticksA (max (primaryMax raw * 1.1) 1) ! (i - 1)
            = (real i / 10) * max (primaryMax raw * 1.1) 1
        \<and> formatterA (max (primaryMax raw * 1.1) 1)
             (ticksA (max (primaryMax raw * 1.1) 1) ! (i - 1)) = toString (int i)
        \<and> ticksA64 (\<lambda>x. x) (Finite (max (primaryMax raw * 1.1) 1))
            = map Finite (ticksA (max (primaryMax raw * 1.1) 1))
        \<and> formatterA64 (\<lambda>x. x) (Finite (max (primaryMax raw * 1.1) 1))
             (Finite (ticksA (max (primaryMax raw * 1.1) 1) ! (i - 1)))
            = formatterA (max (primaryMax raw * 1.1) 1)
                (ticksA (max (primaryMax raw * 1.1) 1) ! (i - 1))
        \<and> (nearest64 rnd \<longrightarrow>
             formatterA64 rnd (Finite (max (primaryMax raw * 1.1) 1))
               (ticksA64 rnd (Finite (max (primaryMax raw * 1.1) 1)) ! (i - 1))
               = toString (int i)))
     \<and> toString (int i) = scaleLabels ! (i - 1)
     \<and> toString (int i) \<noteq> []
     \<and> (nearest64 rnd \<and> 16 * MIN_NORMAL \<le> s \<and> s \<le> MAX_VALUE \<longrightarrow>
          formatterA64 rnd (Finite s) (ticksA64 rnd (Finite s) ! (i - 1)) = toString (int i))
     \<and> (nearest64 rnd \<longrightarrow>
          ticksA64 rnd PosInfinity ! (i - 1) = PosInfinity
        \<and> formatterA64 rnd PosInfinity (ticksA64 rnd PosInfinity ! (i - 1)) = [])
     \<and> (scaledMax64 rnd (Finite pmax) = PosInfinity
          \<or> (\<exists>s'. scaledMax64 rnd (Finite pmax) = Finite s' \<and> 1 \<le> s' \<and> s' \<le> MAX_VALUE))
     \<and> (nearest64 rnd \<and> 15 * 2 ^ 1020 \<le> pmax \<longrightarrow>
          scaledMax64 rnd (Finite pmax) = PosInfinity)"
proof -
  have B: "formatterA64 rnd (Finite s) (ticksA64 rnd (Finite s) ! (i - 1)) = toString (int i)"
    if "nearest64 rnd" "16 * MIN_NORMAL \<le> s" "s \<le> MAX_VALUE" for rnd s
  proof -
    from that(2) MIN_NORMAL_pos have sp: "0 < s" by linarith
    from tick64_finite [OF that(1) assms that(2,3)]
    obtain t where "ticksA64 rnd (Finite s) ! (i - 1) = Finite t"
      "999 / 1000 * (999 / 1000 * (real i / 10) * s) \<le> t"
      "t \<le> 1001 / 1000 * (1001 / 1000 * (real i / 10) * s)" by blast
    with formatterA64_label [OF that(1) assms sp] show ?thesis by simp
  qed
  have L: "toString (int i) = scaleLabels ! (i - 1)"
    using assms by (rule toString_labels)
  have "scaleLabels ! (i - 1) \<noteq> ([]::string)"
    using one_to_ten [OF assms] by (elim disjE) (simp_all add: scaleLabels_def)
  with L have N: "toString (int i) \<noteq> []" by simp
  have A: "map_option rightTickFormatter (axisConfig (axisSync (Some pm) (Some cm) raw))
            = Some (Some (formatterA (max (primaryMax raw * 1.1) 1)))
        \<and> map_option rightTicks (axisConfig (axisSync (Some pm) (Some cm) raw))
            = Some (Some (ticksA (max (primaryMax raw * 1.1) 1)))
        \<and> ticksA (max (primaryMax raw * 1.1) 1) ! (i - 1)
            = (real i / 10) * max (primaryMax raw * 1.1) 1
        \<and> formatterA (max (primaryMax raw * 1.1) 1)
             (ticksA (max (primaryMax raw * 1.1) 1) ! (i - 1)) = toString (int i)
        \<and> ticksA64 (\<lambda>x. x) (Finite (max (primaryMax raw * 1.1) 1))
            = map Finite (ticksA (max (primaryMax raw * 1.1) 1))
        \<and> formatterA64 (\<lambda>x. x) (Finite (max (primaryMax raw * 1.1) 1))
             (Finite (ticksA (max (primaryMax raw * 1.1) 1) ! (i - 1)))
            = formatterA (max (primaryMax raw * 1.1) 1)
                (ticksA (max (primaryMax raw * 1.1) 1) ! (i - 1))
        \<and> (nearest64 rnd \<longrightarrow>
             formatterA64 rnd (Finite (max (primaryMax raw * 1.1) 1))
               (ticksA64 rnd (Finite (max (primaryMax raw * 1.1) 1)) ! (i - 1))
               = toString (int i))"
    if h: "raw \<noteq> []" "item_type pm = NUMERIC" "item_type cm = SCALE_1_10"
      "primaryMax raw * 1.1 \<le> MAX_VALUE"
  proof -
    define S where "S = max (primaryMax raw * 1.1) 1"
    have S: "1 \<le> S" "0 < S" "S \<le> MAX_VALUE"
      using h(4) one_le_MAX by (simp_all add: S_def)
    have tk: "ticksA S ! (i - 1) = (real i / 10) * S"
      using assms by (rule tick_nth)
    from assms have "0 \<le> real i / 10" "real i / 10 \<le> 1" by simp_all
    with S(2) have rng: "0 \<le> ticksA S ! (i - 1)" "ticksA S ! (i - 1) \<le> S"
      unfolding tk by (simp_all add: mult_left_le_one_le)
    note c = scenarioA_config [OF h(1,2,3), folded S_def]
    have f: "formatterA S (ticksA S ! (i - 1)) = toString (int i)"
      using assms S(2) by (rule formatterA_ticksA)
    have e1: "ticksA64 (\<lambda>x. x) (Finite S) = map Finite (ticksA S)"
      using S(2,3) by (rule ticksA64_exact)
    have e2: "formatterA64 (\<lambda>x. x) (Finite S) (Finite (ticksA S ! (i - 1)))
        = formatterA S (ticksA S ! (i - 1))"
      using S(2) rng by (rule formatterA64_exact)
    from S(1) MIN_NORMAL_le have "16 * MIN_NORMAL \<le> S" by linarith
    then have b: "nearest64 rnd \<longrightarrow>
        formatterA64 rnd (Finite S) (ticksA64 rnd (Finite S) ! (i - 1)) = toString (int i)"
      using B [of rnd S] S by blast
    from c tk f e1 e2 b show ?thesis unfolding S_def by blast
  qed
  have C: "ticksA64 rnd PosInfinity ! (i - 1) = PosInfinity
        \<and> formatterA64 rnd PosInfinity (ticksA64 rnd PosInfinity ! (i - 1)) = []"
    if "nearest64 rnd"
    using ticksA64_overflow [OF that assms] by (simp add: formatterA64_overflow)
  note D = scaledMax64_cases [of rnd pmax]
  have E: "nearest64 rnd \<and> 15 * 2 ^ 1020 \<le> pmax \<longrightarrow> scaledMax64 rnd (Finite pmax) = PosInfinity"
    using scaledMax64_overflow [of rnd pmax] by blast
  from A B [of rnd s] L N C D E show ?thesis by blast
qed

theorem scenarioA_tick_labels_witness:
  "nearest64 roundDown64
   \<and> formatterA64 roundDown64 (Finite 33) (ticksA64 roundDown64 (Finite 33) ! (7 - 1)) = ''7''
   \<and> js_mul roundDown64
        (js_div roundDown64 (ticksA64 roundDown64 (Finite 33) ! (7 - 1)) (Finite 33)) (Finite 10)
       = Finite (7 * (1 - 1 / 2 ^ 53) ^ 4)
   \<and> \<lfloor>7 * (1 - 1 / 2 ^ 53) ^ 4 :: real\<rfloor> = 6
   \<and> Math_round (7 * (1 - 1 / 2 ^ 53) ^ 4) = 7
   \<and> map_option rightTicks (axisConfig (axisSync (Some stepsItem) (Some sleepItem) threeDays))
       = Some (Some (ticksA 9.9))
   \<and> ticksA 9.9 ! (7 - 1) = 6.93
   \<and> formatterA 9.9 (ticksA 9.9 ! (7 - 1)) = ''7''"
proof -
  have i: "(1::nat) \<le> 7" "(7::nat) \<le> 10" by simp_all
  have n: "nearest64 roundDown64" by (rule nearest64_roundDown64)
  have s: "16 * MIN_NORMAL \<le> 33" "(33::real) \<le> MAX_VALUE"
    using thousand_le_MAX MIN_NORMAL_le by simp_all
  have h: "threeDays \<noteq> []" "item_type stepsItem = NUMERIC" "item_type sleepItem = SCALE_1_10"
    by (simp_all add: threeDays_def stepsItem_def sleepItem_def)
  have m: "primaryMax threeDays = 9"
    by (simp add: primaryMax_def threeDays_def point_def nonNull_def maxOr10_def)
  have mx: "primaryMax threeDays * 1.1 \<le> MAX_VALUE"
    using thousand_le_MAX by (simp add: m)
  have l: "toString (int 7) = ''7''"
    by (simp add: toString_def decimal.simps digit_char_def)
  note t = scenarioA_tick_labels [OF i, where rnd = roundDown64 and s = 33 and raw = threeDays
      and pm = stepsItem and cm = sleepItem]
  from t n s l have b: "formatterA64 roundDown64 (Finite 33) (ticksA64 roundDown64 (Finite 33) ! (7 - 1)) = ''7''"
    by simp
  from t h mx m l have a: "map_option rightTicks (axisConfig (axisSync (Some stepsItem) (Some sleepItem) threeDays))
       = Some (Some (ticksA 9.9))"
    "ticksA 9.9 ! (7 - 1) = 6.93"
    "formatterA 9.9 (ticksA 9.9 ! (7 - 1)) = ''7''"
    by simp_all
  have v: "js_mul roundDown64
        (js_div roundDown64 (ticksA64 roundDown64 (Finite 33) ! (7 - 1)) (Finite 33)) (Finite 10)
       = Finite (7 * (1 - 1 / 2 ^ 53) ^ 4)"
    by (simp add: ticksA64_def fin_def roundDown64_def MAX_VALUE_def Let_def power_divide)
  have fl: "\<lfloor>7 * (1 - 1 / 2 ^ 53) ^ 4 :: real\<rfloor> = 6"
    by (simp add: power_divide)
  have rn: "Math_round (7 * (1 - 1 / 2 ^ 53) ^ 4) = 7"
    by (simp add: Math_round_def power_divide)
  from n b v fl rn a show ?thesis by blast
qed

text \<open>
  Below the normal range the ticks underflow: with \<open>scaledMax\<close> the least subnormal
  number \<open>2^-1074\<close> the first tick rounds to zero, and its label is empty.
\<close>

lemma nearest64_flushTiny64: "nearest64 flushTiny64"
proof -
  have e: "\<bar>flushTiny64 x - x\<bar> \<le> \<bar>x\<bar> / 2 ^ 53" if "MIN_NORMAL \<le> \<bar>x\<bar>" for x
  proof -
    have "(1::real) / 2 ^ 1075 < MIN_NORMAL" by (simp add: MIN_NORMAL_def)
    with that have "flushTiny64 x = x" by (simp add: flushTiny64_def)
    then show ?thesis by simp
  qed
  have m: "flushTiny64 x \<le> MAX_VALUE" if "x \<le> MAX_VALUE" for x
    using that one_le_MAX by (simp add: flushTiny64_def)
  have o: "flushTiny64 1 = 1" by (simp add: flushTiny64_def)
  from e m o show ?thesis unfolding nearest64_def by blast
qed

lemma formatterA64_underflow:
  "nearest64 flushTiny64
   \<and> ticksA64 flushTiny64 (Finite (1 / 2 ^ 1074)) ! 0 = Finite 0
   \<and> formatterA64 flushTiny64 (Finite (1 / 2 ^ 1074))
        (ticksA64 flushTiny64 (Finite (1 / 2 ^ 1074)) ! 0) = []"
proof -
  have t: "ticksA64 flushTiny64 (Finite (1 / 2 ^ 1074)) ! 0 = Finite 0"
    by (simp add: ticksA64_def fin_def flushTiny64_def MAX_VALUE_def Let_def)
  have "formatterA64 flushTiny64 (Finite (1 / 2 ^ 1074)) (Finite 0) = []"
    by (simp add: formatterA64_def fin_def flushTiny64_def MAX_VALUE_def Math_round_def Let_def)
  with t nearest64_flushTiny64 show ?thesis by simp
qed

text \<open>
  A primary maximum of \<open>15 * 2^1020\<close> (about \<open>1.69e308\<close>, a binary64 number) makes
  \<open>scaledMax\<close> infinite; the first tick is \<open>Infinity\<close> and its label is empty, not "1".
\<close>

theorem scenarioA_overflow_counterexample:
  "0 < (15 * 2 ^ 1020 :: real)
   \<and> scaledMax64 (\<lambda>x. x) (Finite (15 * 2 ^ 1020)) = PosInfinity
   \<and> ticksA64 (\<lambda>x. x) PosInfinity ! 0 = PosInfinity
   \<and> formatterA64 (\<lambda>x. x) PosInfinity (ticksA64 (\<lambda>x. x) PosInfinity ! 0) = []
   \<and> formatterA64 (\<lambda>x. x) PosInfinity (ticksA64 (\<lambda>x. x) PosInfinity ! 0) \<noteq> ''1''"
proof -
  have a: "scaledMax64 (\<lambda>x. x) (Finite (15 * 2 ^ 1020)) = PosInfinity"
    using nearest64_exact by (rule scaledMax64_overflow) simp
  have b: "ticksA64 (\<lambda>x. x) PosInfinity ! (1 - 1) = PosInfinity"
    using nearest64_exact by (rule ticksA64_overflow) simp_all
  then have c: "formatterA64 (\<lambda>x. x) PosInfinity (ticksA64 (\<lambda>x. x) PosInfinity ! 0) = []"
    by (simp add: formatterA64_overflow)
  from a b c show ?thesis by simp
qed

section \<open>Correlation score\<close>

lemma innerJoin_Nil: "innerJoin [] = []"
  by (simp add: innerJoin_def)

lemma innerJoin_Cons:
  "innerJoin (d # cd) =
      (case (primaryValue d, comparisonValue d) of
         (Some p, Some c) \<Rightarrow> (p, c) # innerJoin cd
       | _ \<Rightarrow> innerJoin cd)"
  by (cases "primaryValue d"; cases "comparisonValue d") (simp_all add: innerJoin_def)

lemma fold_pushPaired:
  "fold pushPaired cd acc = (fst acc @ map fst (innerJoin cd), snd acc @ map snd (innerJoin cd))"
proof (induction cd arbitrary: acc)
  case Nil
  then show ?case by (simp add: innerJoin_Nil)
next
  case (Cons d cd)
  have "fold pushPaired (d # cd) acc = fold pushPaired cd (pushPaired d acc)"
    by simp
  also have "\<dots> = (fst (pushPaired d acc) @ map fst (innerJoin cd),
                    snd (pushPaired d acc) @ map snd (innerJoin cd))"
    by (rule Cons.IH)
  also have "\<dots> = (fst acc @ map fst (innerJoin (d # cd)), snd acc @ map snd (innerJoin (d # cd)))"
    by (cases "primaryValue d"; cases "comparisonValue d")
       (simp_all add: innerJoin_Cons pushPaired_def)
  finally show ?case .
qed

lemma pairedValues_innerJoin:
  "pairedValues cd = (map fst (innerJoin cd), map snd (innerJoin cd))"
  by (simp add: pairedValues_def fold_pushPaired)

lemma correlationScore_eq:
  "correlationScore pearson pm cm cid cd =
     (if pm = None \<or> cm = None \<or> cid = ''none'' \<or> cd = [] \<or> length (innerJoin cd) < 2
      then None
      else pearson (map fst (innerJoin cd)) (map snd (innerJoin cd)))"
  by (simp add: correlationScore_def pairedValues_innerJoin)

lemma innerJoin_normalize: "innerJoin (map normalizeBoolean cd) = innerJoin cd"
  by (induction cd)
     (simp_all add: innerJoin_Nil innerJoin_Cons normalizeBoolean_keeps split: option.splits)

lemma innerJoin_axisSync: "innerJoin (chartData (axisSync pmo cmo raw)) = innerJoin raw"
  by (cases pmo; cases cmo) (simp_all add: axisSync_def Let_def innerJoin_normalize)

text \<open>
  C2. The correlation score is computed over the inner join of the days on which both the
  primary and the comparison value are present, and over nothing else: it is the result of
  \<open>calculatePearsonCorrelation\<close> on the two columns of that join. It is \<open>null\<close>
  whenever fewer than 2 such pairs exist, when the comparison metric id is \<open>none\<close> (or
  either metric is not found), or when the chart data is empty.
\<close>

theorem correlationScore_inner_join:
  "pairedValues cd = (map fst (innerJoin cd), map snd (innerJoin cd))
   \<and> correlationScore pearson pm cm cid cd =
       (if pm = None \<or> cm = None \<or> cid = ''none'' \<or> cd = [] \<or> length (innerJoin cd) < 2
        then None
        else pearson (map fst (innerJoin cd)) (map snd (innerJoin cd)))"
  by (simp add: correlationScore_eq pairedValues_innerJoin)

theorem correlationScore_inner_join_witness:
  "innerJoin threeDays = [(6, 1), (4, 0)]
   \<and> correlationScore (\<lambda>xs ys. Some (xs, ys)) (Some moodItem) (Some coffeeItem) ''m2'' threeDays
       = Some ([6, 4], [1, 0])
   \<and> innerJoin (tl threeDays) = [(4, 0)]
   \<and> correlationScore (\<lambda>xs ys. Some (xs, ys)) (Some moodItem) (Some coffeeItem) ''m2''
        (tl threeDays) = None
   \<and> correlationScore (\<lambda>xs ys. Some (xs, ys)) (Some moodItem) (Some coffeeItem) ''none'' threeDays
       = None
   \<and> correlationScore (\<lambda>xs ys. Some (xs, ys)) (Some moodItem) (Some coffeeItem) ''m2'' [] = None"
proof -
  have j: "innerJoin threeDays = [(6, 1), (4, 0)]" "innerJoin (tl threeDays) = [(4, 0)]"
    "threeDays \<noteq> []" "tl threeDays \<noteq> []"
    by (simp_all add: innerJoin_def threeDays_def point_def)
  from correlationScore_inner_join [of threeDays "\<lambda>xs ys. Some (xs, ys)" "Some moodItem"
         "Some coffeeItem" "''m2''"]
       correlationScore_inner_join [of "tl threeDays" "\<lambda>xs ys. Some (xs, ys)" "Some moodItem"
         "Some coffeeItem" "''m2''"]
       correlationScore_inner_join [of threeDays "\<lambda>xs ys. Some (xs, ys)" "Some moodItem"
         "Some coffeeItem" "''none''"]
       correlationScore_inner_join [of "[]" "\<lambda>xs ys. Some (xs, ys)" "Some moodItem"
         "Some coffeeItem" "''m2''"]
       j
  show ?thesis by simp
qed

text \<open>
  C9. The correlation score is computed from the original comparison values. The chart
  data handed to the correlation computation is the output of the axis synchronizer, which
  in the boolean scenario adds \<open>normalizedComparisonValue\<close> (1 to 7.5, 0 to 2.5) to each
  point; it leaves \<open>comparisonValue\<close> as it was, the paired arrays are those of the raw
  data, and the score is the same as the one computed from the raw data.
\<close>

theorem correlation_ignores_normalization:
  "pageCorrelationScore pearson st =
     correlationScore pearson (primaryMetric st) (comparisonMetric st) (comparisonMetricId st)
       (rawChartData st)
   \<and> correlationScore pearson pm cm cid (chartData (axisSync pm cm raw))
       = correlationScore pearson pm cm cid raw
   \<and> correlationScore pearson pm cm cid (map normalizeBoolean raw)
       = correlationScore pearson pm cm cid raw
   \<and> pairedValues (map normalizeBoolean raw) = pairedValues raw
   \<and> map comparisonValue (chartData (axisSync pm cm raw)) = map comparisonValue raw"
proof -
  have a: "pageCorrelationScore pearson st =
     correlationScore pearson (primaryMetric st) (comparisonMetric st) (comparisonMetricId st)
       (rawChartData st)"
    by (simp add: pageCorrelationScore_def pageAxis_def correlationScore_eq innerJoin_axisSync
          chartData_empty)
  have a': "correlationScore pearson pm cm cid (chartData (axisSync pm cm raw))
       = correlationScore pearson pm cm cid raw"
    by (simp add: correlationScore_eq innerJoin_axisSync chartData_empty)
  have b: "correlationScore pearson pm cm cid (map normalizeBoolean raw)
       = correlationScore pearson pm cm cid raw"
    by (simp add: correlationScore_eq innerJoin_normalize)
  have c: "pairedValues (map normalizeBoolean raw) = pairedValues raw"
    by (simp add: pairedValues_innerJoin innerJoin_normalize)
  have d: "map comparisonValue (chartData (axisSync pm cm raw)) = map comparisonValue raw"
    by (cases pm; cases cm) (simp_all add: axisSync_def Let_def normalizeBoolean_keeps comp_def)
  from a a' b c d show ?thesis by simp
qed

theorem correlation_ignores_normalization_witness:
  "map normalizedComparisonValue (chartData (axisSync (Some moodItem) (Some coffeeItem) threeDays))
     = [Some (Some 7.5), Some (Some 2.5), Some None, Some None]
   \<and> correlationScore (\<lambda>xs ys. Some (xs, ys)) (Some moodItem) (Some coffeeItem) ''m2''
        (chartData (axisSync (Some moodItem) (Some coffeeItem) threeDays))
       = Some ([6, 4], [1, 0])"
proof -
  have n: "map normalizedComparisonValue
      (chartData (axisSync (Some moodItem) (Some coffeeItem) threeDays))
     = [Some (Some 7.5), Some (Some 2.5), Some None, Some None]"
    by (simp add: axisSync_def moodItem_def coffeeItem_def threeDays_def point_def
          normalizeBoolean_def)
  have r: "correlationScore (\<lambda>xs ys. Some (xs, ys)) (Some moodItem) (Some coffeeItem) ''m2''
      threeDays = Some ([6, 4], [1, 0])"
    by (simp add: correlationScore_def pairedValues_def pushPaired_def threeDays_def point_def)
  from correlation_ignores_normalization [of "\<lambda>xs ys. Some (xs, ys)" _ "Some moodItem"
         "Some coffeeItem" "''m2''" threeDays] n r
  show ?thesis by simp
qed

section \<open>Vote action\<close>

lemma votesOf_Nil_iff:
  "votesOf u f tbl = [] \<longleftrightarrow> (u, f) \<notin> set (map (\<lambda>r. (user_id r, finding_id r)) tbl)"
  by (auto simp: votesOf_def matches_def filter_empty_conv)

lemma unique_votesOf: "vote_unique tbl \<Longrightarrow> length (votesOf u f tbl) \<le> 1"
proof (induction tbl)
  case Nil
  then show ?case by (simp add: votesOf_def)
next
  case (Cons r tbl)
  from Cons.prems have u: "vote_unique tbl"
    and n: "(user_id r, finding_id r) \<notin> set (map (\<lambda>r. (user_id r, finding_id r)) tbl)"
    by (simp_all add: vote_unique_def)
  show ?case
  proof (cases "matches u f r")
    case True
    then have "(u, f) \<notin> set (map (\<lambda>r. (user_id r, finding_id r)) tbl)"
      using n by (simp add: matches_def)
    then have "votesOf u f tbl = []" by (simp add: votesOf_Nil_iff)
    then have "filter (matches u f) tbl = []" by (simp add: votesOf_def)
    with True show ?thesis by (simp add: votesOf_def)
  next
    case False
    with Cons.IH [OF u] show ?thesis by (simp add: votesOf_def)
  qed
qed

lemma single_short:
  "length rows \<le> 1 \<Longrightarrow> single rows = (case rows of [] \<Rightarrow> None | r # _ \<Rightarrow> Some r)"
  by (cases rows) (auto simp: single_def split: list.splits)

lemma unique_delete: "vote_unique tbl \<Longrightarrow> vote_unique (deleteVotes u f tbl)"
  by (simp add: vote_unique_def deleteVotes_def distinct_map_filter)

lemma keys_update:
  "map (\<lambda>r. (user_id r, finding_id r)) (updateVotes u f t tbl)
     = map (\<lambda>r. (user_id r, finding_id r)) tbl"
  by (induction tbl) (simp_all add: updateVotes_def)

lemma unique_update: "vote_unique tbl \<Longrightarrow> vote_unique (updateVotes u f t tbl)"
  by (simp add: vote_unique_def keys_update)

lemma unique_insert:
  "vote_unique tbl \<Longrightarrow> votesOf u f tbl = [] \<Longrightarrow> vote_unique (insertVote u f t tbl)"
  by (simp add: vote_unique_def insertVote_def votesOf_Nil_iff)

lemma afterWrite_snd: "snd (afterWrite env tbl) = tbl"
  by (simp add: afterWrite_def split: invokeOutcome.splits)

lemma writeVote_snd: "snd (writeVote env msg tbl tbl') = tbl \<or> snd (writeVote env msg tbl tbl') = tbl'"
  by (simp add: writeVote_def afterWrite_snd split: outcome.splits option.splits)

lemma castVote_unique:
  assumes "vote_unique tbl"
  shows "vote_unique (snd (castVoteAction env u f t tbl))"
proof -
  have short: "length (filter (matches u f) tbl) \<le> 1"
    using unique_votesOf [OF assms, of u f] by (simp add: votesOf_def)
  have d: "vote_unique (snd (writeVote env m tbl (deleteVotes u f tbl)))" for m
    using writeVote_snd [of env m tbl "deleteVotes u f tbl"] assms unique_delete [OF assms, of u f]
    by auto
  have up: "vote_unique (snd (writeVote env m tbl (updateVotes u f t tbl)))" for m
    using writeVote_snd [of env m tbl "updateVotes u f t tbl"] assms unique_update [OF assms, of u f t]
    by auto
  have ins: "vote_unique (snd (writeVote env m tbl (insertVote u f t tbl)))"
    if "single (filter (matches u f) tbl) = None" for m
  proof -
    from that short have "votesOf u f tbl = []"
      by (cases "filter (matches u f) tbl") (simp_all add: single_short votesOf_def)
    from unique_insert [OF assms this, of t]
         writeVote_snd [of env m tbl "insertVote u f t tbl"] assms
    show ?thesis by auto
  qed
  show ?thesis
    unfolding castVoteAction_def
    using assms d up ins
    by (simp add: unexpected_def split: outcome.splits option.splits)
qed


lemma matches_update:
  "matches u f (if matches u f r then r\<lparr>vote_type := t\<rparr> else r) = matches u f r"
  by (simp add: matches_def)

lemma votesOf_update:
  "votesOf u f (updateVotes u f t tbl) = map (\<lambda>r. r\<lparr>vote_type := t\<rparr>) (votesOf u f tbl)"
  by (induction tbl) (simp_all add: votesOf_def updateVotes_def matches_def)

lemma others_update:
  "filter (\<lambda>r. \<not> matches u f r) (updateVotes u f t tbl) = filter (\<lambda>r. \<not> matches u f r) tbl"
  by (induction tbl) (simp_all add: updateVotes_def matches_def)

lemma votesOf_delete: "votesOf u f (deleteVotes u f tbl) = []"
  by (simp add: votesOf_def deleteVotes_def)

lemma others_delete:
  "filter (\<lambda>r. \<not> matches u f r) (deleteVotes u f tbl) = filter (\<lambda>r. \<not> matches u f r) tbl"
  by (simp add: deleteVotes_def)

lemma votesOf_insert:
  "votesOf u f (insertVote u f t tbl)
     = votesOf u f tbl @ [\<lparr>user_id = u, finding_id = f, vote_type = t\<rparr>]"
  by (simp add: votesOf_def insertVote_def matches_def)

lemma others_insert:
  "filter (\<lambda>r. \<not> matches u f r) (insertVote u f t tbl) = filter (\<lambda>r. \<not> matches u f r) tbl"
  by (simp add: insertVote_def matches_def)

lemma castVote_success:
  assumes "callsSucceed env u" "u \<noteq> []" "f \<noteq> []"
  shows "castVoteAction env u f t tbl =
     afterWrite env
       (case single (votesOf u f tbl) of
          Some existingVote \<Rightarrow>
            if vote_type existingVote = t then deleteVotes u f tbl else updateVotes u f t tbl
        | None \<Rightarrow> insertVote u f t tbl)"
  using assms
  by (simp add: castVoteAction_def callsSucceed_def writeVote_def votesOf_def split: option.splits)

lemma castVote_others:
  "filter (\<lambda>r. \<not> matches u f r) (snd (castVoteAction env u f t tbl))
     = filter (\<lambda>r. \<not> matches u f r) tbl"
proof -
  have w: "filter (\<lambda>r. \<not> matches u f r) (snd (writeVote env m tbl tbl'))
      = filter (\<lambda>r. \<not> matches u f r) tbl"
    if "filter (\<lambda>r. \<not> matches u f r) tbl' = filter (\<lambda>r. \<not> matches u f r) tbl" for m tbl'
    using writeVote_snd [of env m tbl tbl'] that by auto
  show ?thesis
    unfolding castVoteAction_def
    by (simp add: unexpected_def w others_delete others_update others_insert
          split: outcome.splits option.splits)
qed

text \<open>
  C6. Casting a vote is a toggle: on a table with at most one vote row per pair of a user
  and a finding, the row of the voter for the finding is deleted when it has the same
  type, updated in place when it has the other type, and a new row is inserted only when
  there is none; the votes of every other pair are left as they were, and whatever the
  external calls answer, the table still has at most one vote row per pair afterwards.
\<close>

theorem castVote_toggle:
  assumes "vote_unique tbl"
  shows "vote_unique (snd (castVoteAction env u f t tbl))
    \<and> filter (\<lambda>r. \<not> matches u f r) (snd (castVoteAction env u f t tbl))
        = filter (\<lambda>r. \<not> matches u f r) tbl
    \<and> (votesOf u f tbl = [] \<or> (\<exists>e. votesOf u f tbl = [e]))
    \<and> (callsSucceed env u \<and> u \<noteq> [] \<and> f \<noteq> [] \<longrightarrow>
         (votesOf u f tbl = [] \<longrightarrow>
            snd (castVoteAction env u f t tbl)
              = tbl @ [\<lparr>user_id = u, finding_id = f, vote_type = t\<rparr>]
          \<and> votesOf u f (snd (castVoteAction env u f t tbl))
              = [\<lparr>user_id = u, finding_id = f, vote_type = t\<rparr>])
       \<and> (\<forall>e. votesOf u f tbl = [e] \<and> vote_type e = t \<longrightarrow>
            snd (castVoteAction env u f t tbl) = filter (\<lambda>r. \<not> matches u f r) tbl
          \<and> votesOf u f (snd (castVoteAction env u f t tbl)) = [])
       \<and> (\<forall>e. votesOf u f tbl = [e] \<and> vote_type e \<noteq> t \<longrightarrow>
            snd (castVoteAction env u f t tbl)
              = map (\<lambda>r. if matches u f r then r\<lparr>vote_type := t\<rparr> else r) tbl
          \<and> votesOf u f (snd (castVoteAction env u f t tbl)) = [e\<lparr>vote_type := t\<rparr>]
          \<and> length (snd (castVoteAction env u f t tbl)) = length tbl))"
proof -
  have inv: "vote_unique (snd (castVoteAction env u f t tbl))"
    using assms by (rule castVote_unique)
  have oth: "filter (\<lambda>r. \<not> matches u f r) (snd (castVoteAction env u f t tbl))
        = filter (\<lambda>r. \<not> matches u f r) tbl"
    by (rule castVote_others)
  have short: "length (votesOf u f tbl) \<le> 1"
    using assms by (rule unique_votesOf)
  then have one: "votesOf u f tbl = [] \<or> (\<exists>e. votesOf u f tbl = [e])"
    by (cases "votesOf u f tbl") auto
  have beh: "(votesOf u f tbl = [] \<longrightarrow>
            snd (castVoteAction env u f t tbl)
              = tbl @ [\<lparr>user_id = u, finding_id = f, vote_type = t\<rparr>]
          \<and> votesOf u f (snd (castVoteAction env u f t tbl))
              = [\<lparr>user_id = u, finding_id = f, vote_type = t\<rparr>])
       \<and> (\<forall>e. votesOf u f tbl = [e] \<and> vote_type e = t \<longrightarrow>
            snd (castVoteAction env u f t tbl) = filter (\<lambda>r. \<not> matches u f r) tbl
          \<and> votesOf u f (snd (castVoteAction env u f t tbl)) = [])
       \<and> (\<forall>e. votesOf u f tbl = [e] \<and> vote_type e \<noteq> t \<longrightarrow>
            snd (castVoteAction env u f t tbl)
              = map (\<lambda>r. if matches u f r then r\<lparr>vote_type := t\<rparr> else r) tbl
          \<and> votesOf u f (snd (castVoteAction env u f t tbl)) = [e\<lparr>vote_type := t\<rparr>]
          \<and> length (snd (castVoteAction env u f t tbl)) = length tbl)"
    if ok: "callsSucceed env u" "u \<noteq> []" "f \<noteq> []"
  proof (intro conjI impI allI)
    assume e: "votesOf u f tbl = []"
    then have s: "snd (castVoteAction env u f t tbl) = insertVote u f t tbl"
      by (simp add: castVote_success [OF ok] afterWrite_snd single_def)
    show "snd (castVoteAction env u f t tbl)
        = tbl @ [\<lparr>user_id = u, finding_id = f, vote_type = t\<rparr>]"
      by (simp add: s insertVote_def)
    show "votesOf u f (snd (castVoteAction env u f t tbl))
        = [\<lparr>user_id = u, finding_id = f, vote_type = t\<rparr>]"
      by (simp add: s votesOf_insert e)
  next
    fix e assume e: "votesOf u f tbl = [e] \<and> vote_type e = t"
    then have s: "snd (castVoteAction env u f t tbl) = deleteVotes u f tbl"
      by (simp add: castVote_success [OF ok] afterWrite_snd single_def)
    show "snd (castVoteAction env u f t tbl) = filter (\<lambda>r. \<not> matches u f r) tbl"
      by (simp add: s deleteVotes_def)
    show "votesOf u f (snd (castVoteAction env u f t tbl)) = []"
      by (simp add: s votesOf_delete)
  next
    fix e assume e: "votesOf u f tbl = [e] \<and> vote_type e \<noteq> t"
    then have s: "snd (castVoteAction env u f t tbl) = updateVotes u f t tbl"
      by (simp add: castVote_success [OF ok] afterWrite_snd single_def)
    show "snd (castVoteAction env u f t tbl)
        = map (\<lambda>r. if matches u f r then r\<lparr>vote_type := t\<rparr> else r) tbl"
      by (simp add: s updateVotes_def)
    show "votesOf u f (snd (castVoteAction env u f t tbl)) = [e\<lparr>vote_type := t\<rparr>]"
      using e by (simp add: s votesOf_update)
    show "length (snd (castVoteAction env u f t tbl)) = length tbl"
      by (simp add: s updateVotes_def)
  qed
  from inv oth one beh show ?thesis by blast
qed

text \<open>
  C10, as amended. The result of the vote action does not depend on what the vote
  processor answers: with an error or an exception of the processor the action returns what
  it returns when the processor succeeds, so a failure of the count-cache update is never
  surfaced. Once the session is the voter's and the database calls have succeeded, the
  action returns success if the following \<open>revalidatePath\<close> calls return, and the generic
  error of the outer \<open>catch\<close> if they throw.
\<close>

theorem castVote_ignores_processor:
  "castVoteAction (env\<lparr>voteProcessor := p\<rparr>) u f t tbl
     = castVoteAction (env\<lparr>voteProcessor := InvokeOk\<rparr>) u f t tbl
   \<and> (callsSucceed env u \<and> u \<noteq> [] \<and> f \<noteq> [] \<longrightarrow>
        fst (castVoteAction (env\<lparr>voteProcessor := p\<rparr>) u f t tbl)
          = (if revalidateThrows env then unexpected else Success))"
proof -
  have a: "afterWrite (env\<lparr>voteProcessor := p\<rparr>) x = afterWrite (env\<lparr>voteProcessor := InvokeOk\<rparr>) x" for x
    by (cases p) (simp_all add: afterWrite_def)
  have w: "writeVote (env\<lparr>voteProcessor := p\<rparr>) m x y = writeVote (env\<lparr>voteProcessor := InvokeOk\<rparr>) m x y" for m x y
    by (simp add: writeVote_def a split: outcome.splits option.splits)
  have e: "castVoteAction (env\<lparr>voteProcessor := p\<rparr>) u f t tbl
     = castVoteAction (env\<lparr>voteProcessor := InvokeOk\<rparr>) u f t tbl"
    by (simp add: castVoteAction_def w split: outcome.splits option.splits)
  have s: "fst (castVoteAction (env\<lparr>voteProcessor := p\<rparr>) u f t tbl)
      = (if revalidateThrows env then unexpected else Success)"
    if "callsSucceed env u" "u \<noteq> []" "f \<noteq> []"
  proof -
    from that(1) have "callsSucceed (env\<lparr>voteProcessor := p\<rparr>) u"
      by (simp add: callsSucceed_def)
    from castVote_success [OF this that(2,3)] show ?thesis
      by (cases p) (simp_all add: afterWrite_def)
  qed
  from e s show ?thesis by blast
qed

theorem castVote_toggle_witness:
  "vote_unique someVotes
   \<and> callsSucceed okEnv ''alice''
   \<and> votesOf ''alice'' ''f1'' someVotes = [voteOf ''alice'' ''f1'' upvote]
   \<and> snd (castVoteAction okEnv ''alice'' ''f1'' upvote someVotes) = [voteOf ''bob'' ''f1'' downvote]
   \<and> snd (castVoteAction okEnv ''alice'' ''f1'' downvote someVotes)
       = [voteOf ''alice'' ''f1'' downvote, voteOf ''bob'' ''f1'' downvote]
   \<and> votesOf ''alice'' ''f2'' someVotes = []
   \<and> snd (castVoteAction okEnv ''alice'' ''f2'' downvote someVotes)
       = someVotes @ [voteOf ''alice'' ''f2'' downvote]
   \<and> vote_unique (snd (castVoteAction okEnv ''alice'' ''f2'' downvote someVotes))"
proof -
  have h: "vote_unique someVotes"
    by (simp add: vote_unique_def someVotes_def voteOf_def)
  have ok: "callsSucceed okEnv ''alice''" "''alice'' \<noteq> []" "''f1'' \<noteq> []" "''f2'' \<noteq> []"
    by (simp_all add: callsSucceed_def okEnv_def)
  have v1: "votesOf ''alice'' ''f1'' someVotes = [voteOf ''alice'' ''f1'' upvote]"
    and v2: "votesOf ''alice'' ''f2'' someVotes = []"
    by (simp_all add: votesOf_def matches_def someVotes_def voteOf_def)
  have f: "filter (\<lambda>r. \<not> matches ''alice'' ''f1'' r) someVotes = [voteOf ''bob'' ''f1'' downvote]"
    "map (\<lambda>r. if matches ''alice'' ''f1'' r then r\<lparr>vote_type := downvote\<rparr> else r) someVotes
       = [voteOf ''alice'' ''f1'' downvote, voteOf ''bob'' ''f1'' downvote]"
    "vote_type (voteOf ''alice'' ''f1'' upvote) = upvote"
    by (simp_all add: matches_def someVotes_def voteOf_def)
  have a1: "snd (castVoteAction okEnv ''alice'' ''f1'' upvote someVotes)
      = [voteOf ''bob'' ''f1'' downvote]"
    using castVote_toggle [OF h, of okEnv "''alice''" "''f1''" upvote] ok v1 f by simp
  have a2: "snd (castVoteAction okEnv ''alice'' ''f1'' downvote someVotes)
      = [voteOf ''alice'' ''f1'' downvote, voteOf ''bob'' ''f1'' downvote]"
    using castVote_toggle [OF h, of okEnv "''alice''" "''f1''" downvote] ok v1 f by simp
  have a3: "snd (castVoteAction okEnv ''alice'' ''f2'' downvote someVotes)
      = someVotes @ [voteOf ''alice'' ''f2'' downvote]"
    using castVote_toggle [OF h, of okEnv "''alice''" "''f2''" downvote] ok v2
    by (simp add: voteOf_def)
  have u3: "vote_unique (snd (castVoteAction okEnv ''alice'' ''f2'' downvote someVotes))"
    using castVote_toggle [OF h, of okEnv "''alice''" "''f2''" downvote] by (rule conjunct1)
  from h ok(1) v1 a1 a2 v2 a3 u3 show ?thesis by blast
qed

theorem castVote_ignores_processor_witness:
  "callsSucceed okEnv ''alice'' \<and> \<not> revalidateThrows okEnv
   \<and> castVoteAction (okEnv\<lparr>voteProcessor := InvokeThrows\<rparr>) ''alice'' ''f2'' upvote someVotes
       = (Success, someVotes @ [voteOf ''alice'' ''f2'' upvote])
   \<and> castVoteAction (okEnv\<lparr>voteProcessor := InvokeError\<rparr>) ''alice'' ''f2'' upvote someVotes
       = (Success, someVotes @ [voteOf ''alice'' ''f2'' upvote])
   \<and> fst (castVoteAction (okEnv\<lparr>revalidateThrows := True, voteProcessor := InvokeError\<rparr>)
        ''alice'' ''f2'' upvote someVotes)
       = Error ''An unexpected error occurred while voting.''"
proof -
  have ok: "callsSucceed okEnv ''alice''" "\<not> revalidateThrows okEnv"
    "callsSucceed (okEnv\<lparr>revalidateThrows := True\<rparr>) ''alice''"
    "''alice'' \<noteq> []" "''f2'' \<noteq> []"
    by (simp_all add: callsSucceed_def okEnv_def)
  from castVote_ignores_processor [where env = "okEnv\<lparr>revalidateThrows := True\<rparr>"
         and p = InvokeError and u = "''alice''" and f = "''f2''" and t = upvote
         and tbl = someVotes, THEN conjunct2] ok
  have x: "fst (castVoteAction (okEnv\<lparr>revalidateThrows := True, voteProcessor := InvokeError\<rparr>)
        ''alice'' ''f2'' upvote someVotes)
       = Error ''An unexpected error occurred while voting.''"
    by (simp add: unexpected_def)
  have r: "castVoteAction (okEnv\<lparr>voteProcessor := InvokeOk\<rparr>) ''alice'' ''f2'' upvote someVotes
       = (Success, someVotes @ [voteOf ''alice'' ''f2'' upvote])"
    by (simp add: castVoteAction_def okEnv_def someVotes_def voteOf_def matches_def single_def
          writeVote_def afterWrite_def insertVote_def)
  from castVote_ignores_processor [where env = okEnv and p = InvokeThrows and u = "''alice''"
         and f = "''f2''" and t = upvote and tbl = someVotes]
       castVote_ignores_processor [where env = okEnv and p = InvokeError and u = "''alice''"
         and f = "''f2''" and t = upvote and tbl = someVotes]
       ok(1,2) r
  have y: "castVoteAction (okEnv\<lparr>voteProcessor := InvokeThrows\<rparr>) ''alice'' ''f2'' upvote someVotes
       = (Success, someVotes @ [voteOf ''alice'' ''f2'' upvote])"
    "castVoteAction (okEnv\<lparr>voteProcessor := InvokeError\<rparr>) ''alice'' ''f2'' upvote someVotes
       = (Success, someVotes @ [voteOf ''alice'' ''f2'' upvote])"
    by simp_all
  from ok(1,2) y x show ?thesis by blast
qed

text \<open>
  The row is inserted, the vote processor throws, and \<open>revalidatePath\<close> throws: the
  action returns the generic error, with the row written.
\<close>

theorem castVote_revalidate_counterexample:
  "callsSucceed (okEnv\<lparr>voteProcessor := InvokeThrows, revalidateThrows := True\<rparr>) ''alice''
   \<and> castVoteAction (okEnv\<lparr>voteProcessor := InvokeThrows, revalidateThrows := True\<rparr>)
        ''alice'' ''f2'' upvote someVotes
       = (Error ''An unexpected error occurred while voting.'',
          someVotes @ [voteOf ''alice'' ''f2'' upvote])
   \<and> fst (castVoteAction (okEnv\<lparr>voteProcessor := InvokeThrows, revalidateThrows := True\<rparr>)
        ''alice'' ''f2'' upvote someVotes) \<noteq> Success"
  by (simp add: castVoteAction_def okEnv_def someVotes_def voteOf_def matches_def single_def
        writeVote_def afterWrite_def insertVote_def unexpected_def callsSucceed_def)

section \<open>Lab page: status transitions\<close>

lemma fold_activeStep:
  "fold (activeStep today) exps acc =
     (fst acc @ filter (\<lambda>e. status e = ACTIVE \<and> \<not> end_date e < today) exps,
      snd acc @ map (\<lambda>e. \<lparr>mutation_id = exp_id e, mutation_status = COMPLETED\<rparr>)
                  (filter (\<lambda>e. status e = ACTIVE \<and> end_date e < today) exps))"
proof (induction exps arbitrary: acc)
  case Nil
  then show ?case by simp
next
  case (Cons e exps)
  have "fold (activeStep today) (e # exps) acc = fold (activeStep today) exps (activeStep today e acc)"
    by simp
  also have "\<dots> =
     (fst (activeStep today e acc) @ filter (\<lambda>e. status e = ACTIVE \<and> \<not> end_date e < today) exps,
      snd (activeStep today e acc) @ map (\<lambda>e. \<lparr>mutation_id = exp_id e, mutation_status = COMPLETED\<rparr>)
                  (filter (\<lambda>e. status e = ACTIVE \<and> end_date e < today) exps))"
    by (rule Cons.IH)
  also have "\<dots> =
     (fst acc @ filter (\<lambda>e. status e = ACTIVE \<and> \<not> end_date e < today) (e # exps),
      snd acc @ map (\<lambda>e. \<lparr>mutation_id = exp_id e, mutation_status = COMPLETED\<rparr>)
                  (filter (\<lambda>e. status e = ACTIVE \<and> end_date e < today) (e # exps)))"
    by (cases "status e = ACTIVE"; cases "end_date e < today") (simp_all add: activeStep_def)
  finally show ?case .
qed

lemma activeExperiments_eq:
  "activeExperiments today exps =
     (filter (\<lambda>e. status e = ACTIVE \<and> \<not> end_date e < today) exps,
      map (\<lambda>e. \<lparr>mutation_id = exp_id e, mutation_status = COMPLETED\<rparr>)
        (filter (\<lambda>e. status e = ACTIVE \<and> end_date e < today) exps))"
  by (simp add: activeExperiments_def fold_activeStep)

lemma displayed_subset:
  "set (experimentsToDisplay today page) \<subseteq> set (experiments page)"
  by (auto simp: experimentsToDisplay_def activeExperiments_eq completedExperiments_def)

lemma pressButton_mutation:
  assumes "pressButton today page e b = Some muts" "m \<in> set muts"
  shows "e \<in> set (experiments page) \<and> mutation_id m = exp_id e
       \<and> ((b = Complete \<and> status e = ACTIVE \<and> mutation_status m = COMPLETED)
          \<or> (b = Reactivate \<and> status e = COMPLETED \<and> mutation_status m = ACTIVE))"
proof -
  from assms(1) have d: "e \<in> set (experimentsToDisplay today page)"
    and bs: "b \<in> set (cardButtons page e)"
    and ms: "muts = (case b of Complete \<Rightarrow> handleCompleteExperiment (exp_id e)
                 | Reactivate \<Rightarrow> handleReactivateExperiment (exp_id e)
                 | _ \<Rightarrow> [])"
    by (auto simp: pressButton_def split: if_splits)
  from d displayed_subset have "e \<in> set (experiments page)" by blast
  moreover from bs ms assms(2)
  have "mutation_id m = exp_id e
       \<and> ((b = Complete \<and> status e = ACTIVE \<and> mutation_status m = COMPLETED)
          \<or> (b = Reactivate \<and> status e = COMPLETED \<and> mutation_status m = ACTIVE))"
    by (cases b)
       (auto simp: cardButtons_def handleCompleteExperiment_def handleReactivateExperiment_def
             split: if_splits)
  ultimately show ?thesis by simp
qed

text \<open>
  C7. The lab page requests only two kinds of status change. Computing the active list
  requests \<open>COMPLETED\<close> for exactly the experiments that are \<open>ACTIVE\<close> with an end date
  strictly before today, and keeps exactly the \<open>ACTIVE\<close> experiments whose end date has
  not passed; a button pressed on a displayed card requests \<open>COMPLETED\<close> only through the
  Complete button of an \<open>ACTIVE\<close> experiment and \<open>ACTIVE\<close> only through the Reactivate
  button of a \<open>COMPLETED\<close> one, always for the experiment of the card.
\<close>

theorem status_transitions:
  "fst (activeExperiments today exps)
      = filter (\<lambda>e. status e = ACTIVE \<and> \<not> end_date e < today) exps
   \<and> snd (activeExperiments today exps)
      = map (\<lambda>e. \<lparr>mutation_id = exp_id e, mutation_status = COMPLETED\<rparr>)
          (filter (\<lambda>e. status e = ACTIVE \<and> end_date e < today) exps)
   \<and> (\<forall>e \<in> set (fst (activeExperiments today exps)). status e = ACTIVE \<and> \<not> end_date e < today)
   \<and> (\<forall>m \<in> set (snd (activeExperiments today exps)).
         mutation_status m = COMPLETED
         \<and> (\<exists>e \<in> set exps. mutation_id m = exp_id e \<and> status e = ACTIVE \<and> end_date e < today))
   \<and> (\<forall>muts m. pressButton today page e b = Some muts \<and> m \<in> set muts \<longrightarrow>
         e \<in> set (experiments page) \<and> mutation_id m = exp_id e
         \<and> ((b = Complete \<and> status e = ACTIVE \<and> mutation_status m = COMPLETED)
            \<or> (b = Reactivate \<and> status e = COMPLETED \<and> mutation_status m = ACTIVE)))"
proof -
  have a: "\<forall>e \<in> set (fst (activeExperiments today exps)). status e = ACTIVE \<and> \<not> end_date e < today"
    by (simp add: activeExperiments_eq)
  have b: "\<forall>m \<in> set (snd (activeExperiments today exps)).
         mutation_status m = COMPLETED
         \<and> (\<exists>e \<in> set exps. mutation_id m = exp_id e \<and> status e = ACTIVE \<and> end_date e < today)"
    by (auto simp: activeExperiments_eq)
  have c: "\<forall>muts m. pressButton today page e b = Some muts \<and> m \<in> set muts \<longrightarrow>
         e \<in> set (experiments page) \<and> mutation_id m = exp_id e
         \<and> ((b = Complete \<and> status e = ACTIVE \<and> mutation_status m = COMPLETED)
            \<or> (b = Reactivate \<and> status e = COMPLETED \<and> mutation_status m = ACTIVE))"
    using pressButton_mutation by blast
  from a b c show ?thesis by (simp add: activeExperiments_eq)
qed

theorem status_transitions_witness:
  "activeExperiments ''2024-06-01'' labExperiments
     = ([coffeeMood ''e1'' ''2024-12-31'' ACTIVE],
        [\<lparr>mutation_id = ''e2'', mutation_status = COMPLETED\<rparr>])
   \<and> pressButton ''2024-06-01'' (labPage ActiveTab) (coffeeMood ''e1'' ''2024-12-31'' ACTIVE) Complete
       = Some [\<lparr>mutation_id = ''e1'', mutation_status = COMPLETED\<rparr>]
   \<and> pressButton ''2024-06-01'' (labPage CompletedTab) (coffeeMood ''e3'' ''2024-01-15'' COMPLETED) Reactivate
       = Some [\<lparr>mutation_id = ''e3'', mutation_status = ACTIVE\<rparr>]
   \<and> pressButton ''2024-06-01'' (labPage ActiveTab) (coffeeMood ''e2'' ''2024-01-31'' ACTIVE) Complete
       = None
   \<and> pressButton ''2024-06-01'' (labPage CompletedTab) (coffeeMood ''e3'' ''2024-01-15'' COMPLETED) Complete
       = None
   \<and> coffeeMood ''e1'' ''2024-12-31'' ACTIVE \<in> set (experiments (labPage ActiveTab))
   \<and> status (coffeeMood ''e3'' ''2024-01-15'' COMPLETED) = COMPLETED"
proof -
  have a: "filter (\<lambda>e. status e = ACTIVE \<and> \<not> end_date e < ''2024-06-01'') labExperiments
      = [coffeeMood ''e1'' ''2024-12-31'' ACTIVE]"
    "map (\<lambda>e. \<lparr>mutation_id = exp_id e, mutation_status = COMPLETED\<rparr>)
          (filter (\<lambda>e. status e = ACTIVE \<and> end_date e < ''2024-06-01'') labExperiments)
      = [\<lparr>mutation_id = ''e2'', mutation_status = COMPLETED\<rparr>]"
    by (simp_all add: labExperiments_def coffeeMood_def)
  note t = status_transitions [of "''2024-06-01''" labExperiments]
  from t a have act: "activeExperiments ''2024-06-01'' labExperiments
     = ([coffeeMood ''e1'' ''2024-12-31'' ACTIVE],
        [\<lparr>mutation_id = ''e2'', mutation_status = COMPLETED\<rparr>])"
    by (simp add: prod_eq_iff)
  have comp: "completedExperiments labExperiments = [coffeeMood ''e3'' ''2024-01-15'' COMPLETED]"
    by (simp add: completedExperiments_def labExperiments_def coffeeMood_def)
  have p: "pressButton ''2024-06-01'' (labPage ActiveTab) (coffeeMood ''e1'' ''2024-12-31'' ACTIVE) Complete
       = Some [\<lparr>mutation_id = ''e1'', mutation_status = COMPLETED\<rparr>]"
    "pressButton ''2024-06-01'' (labPage CompletedTab) (coffeeMood ''e3'' ''2024-01-15'' COMPLETED) Reactivate
       = Some [\<lparr>mutation_id = ''e3'', mutation_status = ACTIVE\<rparr>]"
    "pressButton ''2024-06-01'' (labPage ActiveTab) (coffeeMood ''e2'' ''2024-01-31'' ACTIVE) Complete
       = None"
    "pressButton ''2024-06-01'' (labPage CompletedTab) (coffeeMood ''e3'' ''2024-01-15'' COMPLETED) Complete
       = None"
    by (simp_all add: pressButton_def experimentsToDisplay_def labPage_def act comp cardButtons_def
          handleCompleteExperiment_def handleReactivateExperiment_def coffeeMood_def)
  from status_transitions [where today = "''2024-06-01''" and page = "labPage ActiveTab"
         and e = "coffeeMood ''e1'' ''2024-12-31'' ACTIVE" and b = Complete] p(1)
  have u1: "coffeeMood ''e1'' ''2024-12-31'' ACTIVE \<in> set (experiments (labPage ActiveTab))"
    by simp
  from status_transitions [where today = "''2024-06-01''" and page = "labPage CompletedTab"
         and e = "coffeeMood ''e3'' ''2024-01-15'' COMPLETED" and b = Reactivate] p(2)
  have u2: "status (coffeeMood ''e3'' ''2024-01-15'' COMPLETED) = COMPLETED"
    by simp
  from act p u1 u2 show ?thesis by blast
qed

section \<open>Experiment results: empty groups\<close>

lemma digit_char_mem: "d < 10 \<Longrightarrow> digit_char d \<in> set ''0123456789''"
  unfolding digit_char_def by (rule nth_mem) simp

lemma toFixed1_last: "last (toFixed1 v) \<in> set ''0123456789''"
proof -
  have "last (toFixed1 v) = digit_char (nat \<lfloor>\<bar>v\<bar> * 10 + 1 / 2\<rfloor> mod 10)"
    by (simp add: toFixed1_def Let_def)
  then show ?thesis by (simp only: digit_char_mem mod_less_divisor zero_less_numeral)
qed

lemma toFixed1_not_NA: "toFixed1 v \<noteq> ''N/A''"
proof
  assume "toFixed1 v = ''N/A''"
  then have "last (toFixed1 v) = CHR ''A''" by simp
  with toFixed1_last [of v] show False by simp
qed

lemma toFixed1_zero: "toFixed1 0 = ''0.0''"
  by (simp add: toFixed1_def decimal.simps digit_char_def)

lemma difference_Some:
  "difference r \<noteq> None \<longleftrightarrow> positiveConditionAverage r \<noteq> None \<and> negativeConditionAverage r \<noteq> None"
  by (simp add: difference_def split: option.splits)

lemma impactOf_None: "impactOf d = None \<longleftrightarrow> d = None"
  by (simp add: impactOf_def split: option.splits)

lemma difference_None:
  "difference r = None \<longleftrightarrow> positiveConditionAverage r = None \<or> negativeConditionAverage r = None"
  by (simp add: difference_def split: option.splits)

text \<open>
  C5, as amended. A condition group without qualifying days has the average \<open>null\<close> and
  the count 0. Whenever at least one day has data for both variables
  (\<open>daysWithData > 0\<close>), the dialog shows a \<open>null\<close> average as "N/A" and a number by
  \<open>toFixed(1)\<close>, which is never "N/A" and is "0.0" for a true zero; the impact summary is
  shown, and the difference computed, exactly when both averages are present. With
  \<open>daysWithData = 0\<close> the dialog shows the insufficient-data panel in place of the
  averages.
\<close>

theorem null_average_rendering:
  "(groupValues (independentType e) True days = [] \<longrightarrow>
      positiveConditionAverage (analyzeExperimentResults e days) = None
      \<and> positiveConditionCount (analyzeExperimentResults e days) = 0)
   \<and> (groupValues (independentType e) False days = [] \<longrightarrow>
      negativeConditionAverage (analyzeExperimentResults e days) = None
      \<and> negativeConditionCount (analyzeExperimentResults e days) = 0)
   \<and> (daysWithData r > 0 \<longrightarrow>
        (\<exists>panel. ExperimentResultsDialog (Some r) = Some (ResultsAnalysis panel)
           \<and> (positiveConditionAverage r = None \<longrightarrow> card_average (positiveCard panel) = ''N/A'')
           \<and> (negativeConditionAverage r = None \<longrightarrow> card_average (negativeCard panel) = ''N/A'')
           \<and> (\<forall>v. positiveConditionAverage r = Some v \<longrightarrow>
                 card_average (positiveCard panel) = toFixed1 v \<and> toFixed1 v \<noteq> ''N/A'')
           \<and> (\<forall>v. negativeConditionAverage r = Some v \<longrightarrow>
                 card_average (negativeCard panel) = toFixed1 v \<and> toFixed1 v \<noteq> ''N/A'')
           \<and> (impact panel \<noteq> None \<longleftrightarrow>
                 positiveConditionAverage r \<noteq> None \<and> negativeConditionAverage r \<noteq> None)))
   \<and> (daysWithData r = 0 \<longrightarrow> ExperimentResultsDialog (Some r) = Some InsufficientDataPanel)
   \<and> toFixed1 0 = ''0.0''
   \<and> (difference r \<noteq> None \<longleftrightarrow>
         positiveConditionAverage r \<noteq> None \<and> negativeConditionAverage r \<noteq> None)
   \<and> (\<forall>p n. positiveConditionAverage r = Some p \<and> negativeConditionAverage r = Some n \<longrightarrow>
         difference r = Some (p - n))"
proof -
  have g: "(groupValues (independentType e) True days = [] \<longrightarrow>
      positiveConditionAverage (analyzeExperimentResults e days) = None
      \<and> positiveConditionCount (analyzeExperimentResults e days) = 0)"
    "(groupValues (independentType e) False days = [] \<longrightarrow>
      negativeConditionAverage (analyzeExperimentResults e days) = None
      \<and> negativeConditionCount (analyzeExperimentResults e days) = 0)"
    by (simp_all add: analyzeExperimentResults_def groupAverage_def)
  have d: "daysWithData r > 0 \<longrightarrow>
        (\<exists>panel. ExperimentResultsDialog (Some r) = Some (ResultsAnalysis panel)
           \<and> (positiveConditionAverage r = None \<longrightarrow> card_average (positiveCard panel) = ''N/A'')
           \<and> (negativeConditionAverage r = None \<longrightarrow> card_average (negativeCard panel) = ''N/A'')
           \<and> (\<forall>v. positiveConditionAverage r = Some v \<longrightarrow>
                 card_average (positiveCard panel) = toFixed1 v \<and> toFixed1 v \<noteq> ''N/A'')
           \<and> (\<forall>v. negativeConditionAverage r = Some v \<longrightarrow>
                 card_average (negativeCard panel) = toFixed1 v \<and> toFixed1 v \<noteq> ''N/A'')
           \<and> (impact panel \<noteq> None \<longleftrightarrow>
                 positiveConditionAverage r \<noteq> None \<and> negativeConditionAverage r \<noteq> None))"
    by (simp add: ExperimentResultsDialog_def averageText_def toFixed1_not_NA impactOf_None
          difference_None del: not_None_eq)
  have i: "daysWithData r = 0 \<longrightarrow> ExperimentResultsDialog (Some r) = Some InsufficientDataPanel"
    by (simp add: ExperimentResultsDialog_def)
  have f: "\<forall>p n. positiveConditionAverage r = Some p \<and> negativeConditionAverage r = Some n \<longrightarrow>
         difference r = Some (p - n)"
    by (simp add: difference_def)
  from g d i f toFixed1_zero difference_Some [of r] show ?thesis by blast
qed

theorem null_average_rendering_witness:
  "daysWithData oneSidedResults > 0
   \<and> positiveConditionAverage oneSidedResults = None
   \<and> negativeConditionAverage oneSidedResults = Some 0
   \<and> ExperimentResultsDialog (Some oneSidedResults)
       = Some (ResultsAnalysis
           \<lparr>positiveCard = \<lparr>card_average = ''N/A'', card_days = ''0 days''\<rparr>,
            negativeCard = \<lparr>card_average = ''0.0'', card_days = ''3 days''\<rparr>,
            impact = None\<rparr>)
   \<and> difference oneSidedResults = None
   \<and> groupValues BOOLEAN True [(Some 0, Some 4), (Some 0, Some 5), (None, Some 7)] = []
   \<and> positiveConditionAverage (analyzeExperimentResults (coffeeMood ''e3'' ''2024-01-15'' COMPLETED)
        [(Some 0, Some 4), (Some 0, Some 5), (None, Some 7)]) = None
   \<and> positiveConditionCount (analyzeExperimentResults (coffeeMood ''e3'' ''2024-01-15'' COMPLETED)
        [(Some 0, Some 4), (Some 0, Some 5), (None, Some 7)]) = 0
   \<and> negativeConditionAverage (analyzeExperimentResults (coffeeMood ''e3'' ''2024-01-15'' COMPLETED)
        [(Some 0, Some 4), (Some 0, Some 5), (None, Some 7)]) = Some 4.5"
proof -
  let ?e = "coffeeMood ''e3'' ''2024-01-15'' COMPLETED"
  let ?days = "[(Some 0, Some 4), (Some 0, Some 5), (None, Some 7)] :: (real option \<times> real option) list"
  have h: "daysWithData oneSidedResults > 0" "positiveConditionAverage oneSidedResults = None"
    "negativeConditionAverage oneSidedResults = Some 0"
    by (simp_all add: oneSidedResults_def)
  have ty: "independentType ?e = BOOLEAN"
    by (simp add: independentType_def coffeeMood_def coffeeItem_def)
  have gv: "groupValues BOOLEAN True ?days = []"
    by (simp add: groupValues_def conditionOf_def)
  have dlg: "ExperimentResultsDialog (Some oneSidedResults)
       = Some (ResultsAnalysis
           \<lparr>positiveCard = \<lparr>card_average = ''N/A'', card_days = ''0 days''\<rparr>,
            negativeCard = \<lparr>card_average = ''0.0'', card_days = ''3 days''\<rparr>,
            impact = None\<rparr>)"
    by (simp add: ExperimentResultsDialog_def oneSidedResults_def averageText_def daysText_def
          toFixed1_def decimal.simps digit_char_def impactOf_def difference_def)
  have neg: "negativeConditionAverage (analyzeExperimentResults ?e ?days) = Some 4.5"
    by (simp add: analyzeExperimentResults_def ty groupValues_def conditionOf_def groupAverage_def)
  note t = null_average_rendering [of ?e ?days oneSidedResults]
  from t h have df: "difference oneSidedResults = None" by simp
  from t gv ty have pos: "positiveConditionAverage (analyzeExperimentResults ?e ?days) = None"
    "positiveConditionCount (analyzeExperimentResults ?e ?days) = 0" by simp_all
  from h dlg df gv pos neg show ?thesis by blast
qed

text \<open>
  Results without any day of data have two \<open>null\<close> averages, and the dialog shows the
  insufficient-data panel: no "N/A" is displayed.
\<close>

theorem insufficient_data_counterexample:
  "positiveConditionAverage noDataResults = None
   \<and> positiveConditionCount noDataResults = 0
   \<and> negativeConditionAverage noDataResults = None
   \<and> negativeConditionCount noDataResults = 0
   \<and> ExperimentResultsDialog (Some noDataResults) = Some InsufficientDataPanel"
  by (simp add: ExperimentResultsDialog_def noDataResults_def)

end
